theory Spec2Isabelle
  imports Main
begin

text \<open>
  A model of the OpenAPI builder \<^verbatim>\<open>oas\<close>, in its version with the \<^verbatim>\<open>Options\<close> argument
  (flat or referenced output), external references and transformations: the schema
  classes and their modifiers, the serialization of a node, the parameters and the
  path item of a route, and \<^verbatim>\<open>makeSchema\<close>. Every function that can throw returns
  either the error or its result.
\<close>

section \<open>JavaScript values and plain objects\<close>

text \<open>
  The values the library builds and emits. \<open>JUndefined\<close> is JavaScript's
  \<^verbatim>\<open>undefined\<close>, which is a value of its own and different from \<open>JNull\<close>.
  Numbers are modelled as integers (the library only stores and copies them, and
  subtracts two of them in the route comparator); \<^verbatim>\<open>NaN\<close> and fractions are outside
  the model. A string is a list of characters, each standing for one code unit.

  An object is the list of its own enumerable properties in the order in which
  \<^verbatim>\<open>Object.keys\<close> lists them.
\<close>

datatype json =
    JUndefined
  | JNull
  | JBool bool
  | JNum int
  | JStr string
  | JArr "json list"
  | JObj "(string \<times> json) list"

type_synonym 'v js_object = "(string \<times> 'v) list"

text \<open>
  A property key that is an array index (the canonical decimal form of a number
  below \<open>2^32 - 1\<close>) is listed before all other keys, in ascending numeric order;
  the other keys follow in the order of their creation.
\<close>

definition is_digit :: "char \<Rightarrow> bool" where
  "is_digit c = (48 \<le> (of_char c :: nat) \<and> (of_char c :: nat) \<le> 57)"

definition digits_value :: "string \<Rightarrow> nat" where
  "digits_value k = foldl (\<lambda>n c. 10 * n + (of_char c - 48)) 0 k"

definition is_array_index :: "string \<Rightarrow> bool" where
  "is_array_index k =
     (k \<noteq> [] \<and> list_all is_digit k \<and> (k = ''0'' \<or> hd k \<noteq> CHR ''0'')
      \<and> digits_value k < 4294967295)"

fun insert_index :: "string \<Rightarrow> 'v \<Rightarrow> 'v js_object \<Rightarrow> 'v js_object" where
  "insert_index k v [] = [(k, v)]"
| "insert_index k v ((k', v') # rest) =
     (if is_array_index k' \<and> digits_value k' < digits_value k
      then (k', v') # insert_index k v rest
      else (k, v) # (k', v') # rest)"

text \<open>
  \<open>obj_set k v obj\<close> defines the own property \<open>k\<close>, as a computed key of an object
  literal or a spread does: an existing key keeps its place and takes the new value,
  a new key is placed where the enumeration order puts it.
\<close>

definition has_key :: "string \<Rightarrow> 'v js_object \<Rightarrow> bool" where
  "has_key k obj = (map_of obj k \<noteq> None)"

fun replace_key :: "string \<Rightarrow> 'v \<Rightarrow> 'v js_object \<Rightarrow> 'v js_object" where
  "replace_key k v [] = []"
| "replace_key k v ((k', v') # rest) =
     (if k' = k then (k, v) # rest else (k', v') # replace_key k v rest)"

definition obj_set :: "string \<Rightarrow> 'v \<Rightarrow> 'v js_object \<Rightarrow> 'v js_object" where
  "obj_set k v obj =
     (if has_key k obj then replace_key k v obj
      else if is_array_index k then insert_index k v obj
      else obj @ [(k, v)])"

text \<open>The spread \<^verbatim>\<open>{...dst, ...src}\<close>: the properties of \<open>src\<close> are defined one by one.\<close>

definition obj_spread :: "'v js_object \<Rightarrow> 'v js_object \<Rightarrow> 'v js_object" where
  "obj_spread src dst = fold (\<lambda>(k, v) acc. obj_set k v acc) src dst"

text \<open>
  Reading a property with a fixed name that \<^verbatim>\<open>Object.prototype\<close> does not have
  (\<^verbatim>\<open>o.type\<close>, \<^verbatim>\<open>o.format\<close>, ...): the own property, or \<^verbatim>\<open>undefined\<close>.
\<close>

definition obj_get :: "json js_object \<Rightarrow> string \<Rightarrow> json" where
  "obj_get obj k = (case map_of obj k of Some v \<Rightarrow> v | None \<Rightarrow> JUndefined)"

text \<open>The rest of a destructuring pattern: the properties not named in it.\<close>

definition obj_rest :: "string list \<Rightarrow> 'v js_object \<Rightarrow> 'v js_object" where
  "obj_rest ks obj = filter (\<lambda>(k, v). k \<notin> set ks) obj"

text \<open>
  Reading a property whose name is computed at run time from a plain object
  \<^verbatim>\<open>{}\<close> finds the own property first and then what the object inherits from
  \<^verbatim>\<open>Object.prototype\<close>: a function or an object, which is truthy.
\<close>

definition Object_prototype_keys :: "string list" where
  "Object_prototype_keys =
     [''constructor'', ''__defineGetter__'', ''__defineSetter__'', ''hasOwnProperty'',
      ''__lookupGetter__'', ''__lookupSetter__'', ''isPrototypeOf'',
      ''propertyIsEnumerable'', ''toString'', ''valueOf'', ''__proto__'',
      ''toLocaleString'']"

datatype 'v property = Own 'v | Inherited | Absent

text \<open>
  What an inherited member reads as in a template string or before \<^verbatim>\<open>+ 1\<close>:
  \<^verbatim>\<open>__proto__\<close> is \<^verbatim>\<open>Object.prototype\<close> itself, \<^verbatim>\<open>constructor\<close> is the function
  \<^verbatim>\<open>Object\<close>, every other member is a native function of its own name.
\<close>

definition inherited_text :: "string \<Rightarrow> string" where
  "inherited_text k =
     (if k = ''__proto__'' then ''[object Object]''
      else if k = ''constructor'' then ''function Object() { [native code] }''
      else ''function '' @ k @ ''() { [native code] }'')"

definition js_get :: "'v js_object \<Rightarrow> string \<Rightarrow> 'v property" where
  "js_get obj k =
     (case map_of obj k of
        Some v \<Rightarrow> Own v
      | None \<Rightarrow> if k \<in> set Object_prototype_keys then Inherited else Absent)"

text \<open>
  The assignment \<^verbatim>\<open>obj[k] = v\<close> of a string \<open>v\<close> to a plain object. For the key
  \<^verbatim>\<open>__proto__\<close> it calls the inherited setter, which ignores a value that is neither
  an object nor null: no own property is created.
\<close>

definition js_assign :: "string \<Rightarrow> 'v \<Rightarrow> 'v js_object \<Rightarrow> 'v js_object" where
  "js_assign k v obj =
     (if k = ''__proto__'' \<and> \<not> has_key k obj then obj else obj_set k v obj)"

text \<open>
  \<^verbatim>\<open>ignoreUndefined\<close>: the keys of \<open>filters\<close> whose value is not \<^verbatim>\<open>undefined\<close>
  (the test is \<^verbatim>\<open>=== undefined\<close>, so \<^verbatim>\<open>null\<close> stays).
\<close>

definition ignoreUndefined :: "json js_object \<Rightarrow> json js_object" where
  "ignoreUndefined filters =
     fold (\<lambda>(key, v) acc. if v = JUndefined then acc else obj_set key v acc) filters []"

text \<open>
  The array that \<^verbatim>\<open>map\<close> builds with a callback that may throw: the first error, or
  all the results.
\<close>

fun seqE :: "('e + 'a) list \<Rightarrow> 'e + 'a list" where
  "seqE [] = Inr []"
| "seqE (Inl e # rest) = Inl e"
| "seqE (Inr x # rest) = (case seqE rest of Inl e \<Rightarrow> Inl e | Inr ys \<Rightarrow> Inr (x # ys))"

section \<open>Schema nodes\<close>

text \<open>
  The fields every \<^verbatim>\<open>Schema\<close> has. An optional field that was never assigned is
  \<open>None\<close>, and a field that was assigned holds a value of its declared type (the
  modifiers store their argument as it is, so a \<^verbatim>\<open>null\<close> passed against the declared
  type would be stored and emitted; such a call is outside the model). \<^verbatim>\<open>_example\<close>
  has type \<^verbatim>\<open>any\<close>: it holds any value, \<open>JNull\<close> included, and \<open>JUndefined\<close> until
  it is set.
\<close>

record base =
  description_f :: "string option"
  required_f :: "bool option"
  deprecated_f :: "bool option"
  explode_f :: "bool option"
  examples_f :: "json option"
  example_f :: json

definition new_base :: base where
  "new_base = \<lparr>description_f = None, required_f = None, deprecated_f = None,
     explode_f = None, examples_f = None, example_f = JUndefined\<rparr>"

text \<open>
  One constructor for each class, with the fields the class adds. A regular
  expression is kept as its source text. A node holds its children, as the value of
  an object that is never assigned to after it was built (see the store below).
\<close>

datatype schema =
    StringField base "int option" "int option" "string option"
  | BooleanField base
  | DateField base "string option"
  | NumberField base "int option" "int option" "int option"
  | EnumField base "string list"
  | ObjectField base "schema js_object" "bool option"
  | ArrayField base "schema option"
  | FixedSchema base schema string
  | ReferenceSchema base string string
  | OneOfSchema base "schema list"
  | AnyOfSchema base "schema list"

fun base_of :: "schema \<Rightarrow> base" where
  "base_of (StringField b mn mx re) = b"
| "base_of (BooleanField b) = b"
| "base_of (DateField b fmt) = b"
| "base_of (NumberField b mn mx df) = b"
| "base_of (EnumField b vs) = b"
| "base_of (ObjectField b fs ap) = b"
| "base_of (ArrayField b it) = b"
| "base_of (FixedSchema b s l) = b"
| "base_of (ReferenceSchema b f p) = b"
| "base_of (OneOfSchema b ss) = b"
| "base_of (AnyOfSchema b ss) = b"

fun with_base :: "(base \<Rightarrow> base) \<Rightarrow> schema \<Rightarrow> schema" where
  "with_base g (StringField b mn mx re) = StringField (g b) mn mx re"
| "with_base g (BooleanField b) = BooleanField (g b)"
| "with_base g (DateField b fmt) = DateField (g b) fmt"
| "with_base g (NumberField b mn mx df) = NumberField (g b) mn mx df"
| "with_base g (EnumField b vs) = EnumField (g b) vs"
| "with_base g (ObjectField b fs ap) = ObjectField (g b) fs ap"
| "with_base g (ArrayField b it) = ArrayField (g b) it"
| "with_base g (FixedSchema b s l) = FixedSchema (g b) s l"
| "with_base g (ReferenceSchema b f p) = ReferenceSchema (g b) f p"
| "with_base g (OneOfSchema b ss) = OneOfSchema (g b) ss"
| "with_base g (AnyOfSchema b ss) = AnyOfSchema (g b) ss"

text \<open>\<^verbatim>\<open>ExtensibleSchema\<close> is the superclass of the seven field classes.\<close>

fun is_ExtensibleSchema :: "schema \<Rightarrow> bool" where
  "is_ExtensibleSchema (FixedSchema b s l) = False"
| "is_ExtensibleSchema (ReferenceSchema b f p) = False"
| "is_ExtensibleSchema (OneOfSchema b ss) = False"
| "is_ExtensibleSchema (AnyOfSchema b ss) = False"
| "is_ExtensibleSchema s = True"

section \<open>Serialization\<close>

datatype Options = Flat | Referenced

datatype error = Error string

definition opt_num :: "int option \<Rightarrow> json" where
  "opt_num x = (case x of None \<Rightarrow> JUndefined | Some n \<Rightarrow> JNum n)"

definition opt_str :: "string option \<Rightarrow> json" where
  "opt_str x = (case x of None \<Rightarrow> JUndefined | Some s \<Rightarrow> JStr s)"

definition opt_bool :: "bool option \<Rightarrow> json" where
  "opt_bool x = (case x of None \<Rightarrow> JUndefined | Some b \<Rightarrow> JBool b)"

definition opt_json :: "json option \<Rightarrow> json" where
  "opt_json x = (case x of None \<Rightarrow> JUndefined | Some j \<Rightarrow> j)"

text \<open>\<^verbatim>\<open>baseFields\<close> of \<^verbatim>\<open>ExtensibleSchema\<close>.\<close>

definition baseFields :: "base \<Rightarrow> json js_object" where
  "baseFields b =
     [(''description'', opt_str (description_f b)),
      (''example'', example_f b),
      (''deprecated'', opt_bool (deprecated_f b))]"

text \<open>
  The body of \<^verbatim>\<open>ExtensibleSchema.toJSonSchema\<close>, given what \<^verbatim>\<open>ownFields\<close> returned:
  \<^verbatim>\<open>type\<close> and \<^verbatim>\<open>format\<close> first, then the base fields, then the other own fields.
\<close>

definition extensible_fragment :: "base \<Rightarrow> json js_object \<Rightarrow> json" where
  "extensible_fragment b own =
     JObj (ignoreUndefined
       (obj_spread (obj_rest [''type'', ''format''] own)
         (obj_spread (baseFields b)
           [(''type'', obj_get own ''type''), (''format'', obj_get own ''format'')])))"

text \<open>
  The \<^verbatim>\<open>reduce\<close> that builds \<^verbatim>\<open>properties\<close>: the fields in order, each serialized;
  the first one that throws ends it.
\<close>

fun reduce_properties :: "(string \<times> (error + json)) list \<Rightarrow> json js_object \<Rightarrow> error + json js_object" where
  "reduce_properties [] acc = Inr acc"
| "reduce_properties ((key, Inl e) # rest) acc = Inl e"
| "reduce_properties ((key, Inr j) # rest) acc = reduce_properties rest (obj_set key j acc)"

text \<open>
  The static map \<^verbatim>\<open>ReferenceSchema.externalFiles\<close>, from a file to the file it was
  resolved to (the empty string until then), is an argument of the serialization.
\<close>

type_synonym file_table = "string js_object"

text \<open>
  \<^verbatim>\<open>toJSonSchema\<close> of every class. For the field classes the list given to
  \<open>extensible_fragment\<close> is the object literal that \<^verbatim>\<open>ownFields\<close> of the class returns.
  In \<^verbatim>\<open>ReferenceSchema.toJSonSchema\<close> a member inherited from \<^verbatim>\<open>Object.prototype\<close>
  passes the test \<^verbatim>\<open>if (targetFilename)\<close>, and the template string holds its text.
\<close>

fun toJSonSchema :: "Options \<Rightarrow> file_table \<Rightarrow> schema \<Rightarrow> error + json" where
  "toJSonSchema opts ef (StringField b mn mx re) =
     Inr (extensible_fragment b
       [(''type'', JStr ''string''), (''minLength'', opt_num mn),
        (''maxLength'', opt_num mx), (''pattern'', opt_str re)])"
| "toJSonSchema opts ef (BooleanField b) =
     Inr (extensible_fragment b [(''type'', JStr ''boolean'')])"
| "toJSonSchema opts ef (DateField b fmt) =
     Inr (extensible_fragment b [(''type'', JStr ''string''), (''format'', opt_str fmt)])"
| "toJSonSchema opts ef (NumberField b mn mx df) =
     Inr (extensible_fragment b
       [(''type'', JStr ''number''), (''minimum'', opt_num mn),
        (''maximum'', opt_num mx), (''default'', opt_num df)])"
| "toJSonSchema opts ef (EnumField b vs) =
     Inr (extensible_fragment b [(''type'', JStr ''string''), (''enum'', JArr (map JStr vs))])"
| "toJSonSchema opts ef (ObjectField b flds ap) =
     (let requiredFields = filter (\<lambda>(key, s). required_f (base_of s) = Some True) flds in
      case (if flds = [] then Inr JUndefined
            else (case reduce_properties
                         (map (\<lambda>(key, s). (key, toJSonSchema opts ef s)) flds) [] of
                    Inl e \<Rightarrow> Inl e
                  | Inr props \<Rightarrow> Inr (JObj props))) of
        Inl e \<Rightarrow> Inl e
      | Inr properties \<Rightarrow>
          Inr (extensible_fragment b
            [(''type'', JStr ''object''),
             (''description'', opt_str (description_f b)),
             (''properties'', properties),
             (''additionaProperties'', opt_bool ap),
             (''required'',
                if requiredFields = [] then JUndefined
                else JArr (map (\<lambda>(key, s). JStr key) requiredFields))]))"
| "toJSonSchema opts ef (ArrayField b it) =
     (case (case it of None \<Rightarrow> Inr JUndefined | Some s \<Rightarrow> toJSonSchema opts ef s) of
        Inl e \<Rightarrow> Inl e
      | Inr items \<Rightarrow>
          Inr (extensible_fragment b [(''type'', JStr ''array''), (''items'', items)]))"
| "toJSonSchema opts ef (FixedSchema b s l) =
     (if opts = Flat then toJSonSchema opts ef s
      else Inr (JObj [(''$ref'', JStr (''#/components/schemas/'' @ l))]))"
| "toJSonSchema opts ef (ReferenceSchema b f p) =
     (case js_get ef f of
        Own targetFilename \<Rightarrow>
          if targetFilename \<noteq> [] then Inr (JObj [(''$ref'', JStr (targetFilename @ ''#'' @ p))])
          else Inl (Error (''External file not found: '' @ f))
      | Inherited \<Rightarrow> Inr (JObj [(''$ref'', JStr (inherited_text f @ ''#'' @ p))])
      | Absent \<Rightarrow> Inl (Error (''External file not found: '' @ f)))"
| "toJSonSchema opts ef (OneOfSchema b ss) =
     (case seqE (map (toJSonSchema opts ef) ss) of
        Inl e \<Rightarrow> Inl e
      | Inr js \<Rightarrow> Inr (JObj [(''oneOf'', JArr js)]))"
| "toJSonSchema opts ef (AnyOfSchema b ss) =
     (case seqE (map (toJSonSchema opts ef) ss) of
        Inl e \<Rightarrow> Inl e
      | Inr js \<Rightarrow> Inr (JObj [(''anyOf'', JArr js)]))"

section \<open>Builders and modifiers\<close>

text \<open>The constructors behind \<^verbatim>\<open>oas.string()\<close>, \<^verbatim>\<open>oas.number()\<close>, ...\<close>

definition oas_string :: schema where
  "oas_string = StringField new_base None None None"

definition oas_boolean :: schema where
  "oas_boolean = BooleanField new_base"

definition oas_date :: schema where
  "oas_date = DateField new_base None"

definition oas_number :: schema where
  "oas_number = NumberField new_base None None None"

definition oas_allow :: "string list \<Rightarrow> schema" where
  "oas_allow values = EnumField new_base values"

definition oas_object :: "schema js_object \<Rightarrow> schema" where
  "oas_object flds = ObjectField new_base flds None"

text \<open>The constructor of \<^verbatim>\<open>ArrayField\<close> sets \<^verbatim>\<open>_explode\<close>.\<close>

definition oas_array :: schema where
  "oas_array = ArrayField (new_base\<lparr>explode_f := Some True\<rparr>) None"

definition oas_oneOf :: "schema list \<Rightarrow> schema" where
  "oas_oneOf schemas = OneOfSchema new_base schemas"

definition oas_anyOf :: "schema list \<Rightarrow> schema" where
  "oas_anyOf schemas = AnyOfSchema new_base schemas"

text \<open>
  \<^verbatim>\<open>toSchemaName\<close>: every character outside \<^verbatim>\<open>[A-Za-z0-9\-\._]\<close> becomes an
  underscore.
\<close>

definition is_name_char :: "char \<Rightarrow> bool" where
  "is_name_char c =
     (let n = (of_char c :: nat) in
      (65 \<le> n \<and> n \<le> 90) \<or> (97 \<le> n \<and> n \<le> 122) \<or> (48 \<le> n \<and> n \<le> 57)
      \<or> c = CHR ''-'' \<or> c = CHR ''.'' \<or> c = CHR ''_'')"

definition toSchemaName :: "string \<Rightarrow> string" where
  "toSchemaName label = map (\<lambda>c. if is_name_char c then c else CHR ''_'') label"

text \<open>
  What each modifier assigns to the clone it has made. The first three are methods
  of \<^verbatim>\<open>Schema\<close>, the next two of \<^verbatim>\<open>ExtensibleSchema\<close>; the others belong to one class
  each, and a receiver of another class is excluded by the type checker.
\<close>

definition required :: "schema \<Rightarrow> schema" where
  "required s = with_base (\<lambda>b. b\<lparr>required_f := Some True\<rparr>) s"

definition deprecated :: "schema \<Rightarrow> schema" where
  "deprecated s = with_base (\<lambda>b. b\<lparr>deprecated_f := Some True\<rparr>) s"

definition examples :: "json \<Rightarrow> schema \<Rightarrow> schema" where
  "examples e s = with_base (\<lambda>b. b\<lparr>examples_f := Some e\<rparr>) s"

definition description :: "string \<Rightarrow> schema \<Rightarrow> schema" where
  "description d s = with_base (\<lambda>b. b\<lparr>description_f := Some d\<rparr>) s"

definition example :: "json \<Rightarrow> schema \<Rightarrow> schema" where
  "example d s = with_base (\<lambda>b. b\<lparr>example_f := d\<rparr>) s"

fun StringField_min :: "int \<Rightarrow> schema \<Rightarrow> schema" where
  "StringField_min d (StringField b mn mx re) = StringField b (Some d) mx re"

fun StringField_max :: "int \<Rightarrow> schema \<Rightarrow> schema" where
  "StringField_max d (StringField b mn mx re) = StringField b mn (Some d) re"

fun StringField_pattern :: "string \<Rightarrow> schema \<Rightarrow> schema" where
  "StringField_pattern d (StringField b mn mx re) = StringField b mn mx (Some d)"

fun DateField_iso :: "schema \<Rightarrow> schema" where
  "DateField_iso (DateField b fmt) = DateField b (Some ''date-time'')"

fun NumberField_min :: "int \<Rightarrow> schema \<Rightarrow> schema" where
  "NumberField_min d (NumberField b mn mx df) = NumberField b (Some d) mx df"

fun NumberField_max :: "int \<Rightarrow> schema \<Rightarrow> schema" where
  "NumberField_max d (NumberField b mn mx df) = NumberField b mn (Some d) df"

fun NumberField_default :: "int \<Rightarrow> schema \<Rightarrow> schema" where
  "NumberField_default d (NumberField b mn mx df) = NumberField b mn mx (Some d)"

fun ObjectField_additionalProperties :: "bool \<Rightarrow> schema \<Rightarrow> schema" where
  "ObjectField_additionalProperties d (ObjectField b flds ap) = ObjectField b flds (Some d)"

fun ArrayField_items :: "schema \<Rightarrow> schema \<Rightarrow> schema" where
  "ArrayField_items d (ArrayField b it) = ArrayField b (Some d)"

text \<open>
  \<^verbatim>\<open>label\<close> builds a \<^verbatim>\<open>FixedSchema\<close>: the constructor starts from the fields of a
  fresh \<^verbatim>\<open>Schema\<close> and copies three flags of the wrapped node. (It also registers
  the label: see \<open>new_FixedSchema\<close> below.)
\<close>

definition label :: "string \<Rightarrow> schema \<Rightarrow> schema" where
  "label d s =
     FixedSchema
       (new_base\<lparr>required_f := required_f (base_of s),
                 deprecated_f := deprecated_f (base_of s),
                 explode_f := explode_f (base_of s)\<rparr>)
       s (toSchemaName d)"

section \<open>Objects in a store\<close>

text \<open>
  The objects built so far, each at the address it was allocated at, and the two
  static tables of the classes: the labels that \<^verbatim>\<open>FixedSchema\<close> has registered and
  the files that \<^verbatim>\<open>ReferenceSchema\<close> knows.
\<close>

record store =
  objects :: "schema list"
  registeredFixedSchemas :: "string list"
  externalFiles :: file_table

definition empty_store :: store where
  "empty_store = \<lparr>objects = [], registeredFixedSchemas = [], externalFiles = []\<rparr>"

definition alloc :: "schema \<Rightarrow> store \<Rightarrow> nat \<times> store" where
  "alloc s st = (length (objects st), st\<lparr>objects := objects st @ [s]\<rparr>)"

text \<open>\<^verbatim>\<open>clone\<close>: a new object of the same class with the same fields.\<close>

definition clone :: "nat \<Rightarrow> store \<Rightarrow> nat \<times> store" where
  "clone t st = alloc (objects st ! t) st"

text \<open>The assignment \<^verbatim>\<open>that._x = d\<close> to the object at address \<open>that\<close>.\<close>

definition assign :: "nat \<Rightarrow> (schema \<Rightarrow> schema) \<Rightarrow> store \<Rightarrow> store" where
  "assign that g st = st\<lparr>objects := (objects st)[that := g (objects st ! that)]\<rparr>"

definition new_FixedSchema :: "nat \<Rightarrow> string \<Rightarrow> store \<Rightarrow> nat \<times> store" where
  "new_FixedSchema this d st =
     (let node = label d (objects st ! this);
          (that, st') = alloc node st
      in (that, st'\<lparr>registeredFixedSchemas := registeredFixedSchemas st' @ [toSchemaName d]\<rparr>))"

definition new_ReferenceSchema :: "string \<Rightarrow> string \<Rightarrow> store \<Rightarrow> nat \<times> store" where
  "new_ReferenceSchema file path st =
     (let (that, st') = alloc (ReferenceSchema new_base file path) st
      in (that, st'\<lparr>externalFiles := js_assign file [] (externalFiles st')\<rparr>))"

text \<open>
  A call \<^verbatim>\<open>this.m(d)\<close> of a modifier. The method is looked up in the class of the
  receiver (\<^verbatim>\<open>min\<close> and \<^verbatim>\<open>max\<close> exist on strings and on numbers); \<open>None\<close> stands for
  a call that does not type-check: the class has no such method, or an address is
  not allocated.
\<close>

datatype modifier =
    M_required
  | M_deprecated
  | M_examples json
  | M_description string
  | M_example json
  | M_label string
  | M_min int
  | M_max int
  | M_pattern string
  | M_iso
  | M_default int
  | M_additionalProperties bool
  | M_items nat

definition method_body :: "modifier \<Rightarrow> schema \<Rightarrow> store \<Rightarrow> (schema \<Rightarrow> schema) option" where
  "method_body m s st =
     (case m of
        M_required \<Rightarrow> Some required
      | M_deprecated \<Rightarrow> Some deprecated
      | M_examples e \<Rightarrow> Some (examples e)
      | M_description d \<Rightarrow> if is_ExtensibleSchema s then Some (description d) else None
      | M_example d \<Rightarrow> if is_ExtensibleSchema s then Some (example d) else None
      | M_label d \<Rightarrow> None
      | M_min d \<Rightarrow>
          (case s of
             StringField b mn mx re \<Rightarrow> Some (StringField_min d)
           | NumberField b mn mx df \<Rightarrow> Some (NumberField_min d)
           | _ \<Rightarrow> None)
      | M_max d \<Rightarrow>
          (case s of
             StringField b mn mx re \<Rightarrow> Some (StringField_max d)
           | NumberField b mn mx df \<Rightarrow> Some (NumberField_max d)
           | _ \<Rightarrow> None)
      | M_pattern d \<Rightarrow>
          (case s of StringField b mn mx re \<Rightarrow> Some (StringField_pattern d) | _ \<Rightarrow> None)
      | M_iso \<Rightarrow> (case s of DateField b fmt \<Rightarrow> Some DateField_iso | _ \<Rightarrow> None)
      | M_default d \<Rightarrow>
          (case s of NumberField b mn mx df \<Rightarrow> Some (NumberField_default d) | _ \<Rightarrow> None)
      | M_additionalProperties d \<Rightarrow>
          (case s of
             ObjectField b flds ap \<Rightarrow> Some (ObjectField_additionalProperties d)
           | _ \<Rightarrow> None)
      | M_items d \<Rightarrow>
          (case s of
             ArrayField b it \<Rightarrow>
               if d < length (objects st) then Some (ArrayField_items (objects st ! d))
               else None
           | _ \<Rightarrow> None))"

text \<open>
  \<^verbatim>\<open>label\<close> makes no clone: it calls the constructor of \<^verbatim>\<open>FixedSchema\<close>. Every
  other modifier clones the receiver and assigns to the clone.
\<close>

definition call :: "modifier \<Rightarrow> nat \<Rightarrow> store \<Rightarrow> (nat \<times> store) option" where
  "call m this st =
     (if \<not> this < length (objects st) then None
      else case m of
        M_label d \<Rightarrow>
          if is_ExtensibleSchema (objects st ! this) then Some (new_FixedSchema this d st)
          else None
      | _ \<Rightarrow>
          (case method_body m (objects st ! this) st of
             None \<Rightarrow> None
           | Some g \<Rightarrow> (let (that, st') = clone this st in Some (that, assign that g st'))))"

text \<open>A chain \<^verbatim>\<open>a.m1(..).m2(..)...\<close>: each call on the result of the one before.\<close>

fun chain :: "modifier list \<Rightarrow> nat \<Rightarrow> store \<Rightarrow> (nat \<times> store) option" where
  "chain [] this st = Some (this, st)"
| "chain (m # ms) this st =
     (case call m this st of None \<Rightarrow> None | Some (that, st') \<Rightarrow> chain ms that st')"

text \<open>Serializing the object at an address, in the state the store is in.\<close>

definition serialize :: "Options \<Rightarrow> store \<Rightarrow> nat \<Rightarrow> error + json" where
  "serialize opts st a = toJSonSchema opts (externalFiles st) (objects st ! a)"

section \<open>Parameters and response headers\<close>

datatype ParameterType = Path | Query | Header | Cookie

fun parameterType_name :: "ParameterType \<Rightarrow> string" where
  "parameterType_name Path = ''path''"
| "parameterType_name Query = ''query''"
| "parameterType_name Header = ''header''"
| "parameterType_name Cookie = ''cookie''"

text \<open>The properties of a serialized fragment (it always is an object).\<close>

fun properties_of :: "json \<Rightarrow> json js_object" where
  "properties_of (JObj kvs) = kvs"
| "properties_of j = []"

text \<open>\<^verbatim>\<open>getReferencedSchema\<close> when the field is a \<^verbatim>\<open>FixedSchema\<close>, the field otherwise.\<close>

fun fieldSchema :: "schema \<Rightarrow> schema" where
  "fieldSchema (FixedSchema b s l) = s"
| "fieldSchema s = s"

text \<open>The descriptor that \<^verbatim>\<open>asParameterList\<close> builds for the field \<open>key\<close>.\<close>

definition parameter :: "ParameterType \<Rightarrow> Options \<Rightarrow> file_table \<Rightarrow> string \<times> schema \<Rightarrow> error + json" where
  "parameter parameterType opts ef fld =
     (case fld of (key, s) \<Rightarrow>
        (case toJSonSchema opts ef (fieldSchema s) of
           Inl e \<Rightarrow> Inl e
         | Inr frag \<Rightarrow>
             Inr (JObj
               [(''description'', obj_get (properties_of frag) ''description''),
                (''name'', JStr key),
                (''in'', JStr (parameterType_name parameterType)),
                (''explode'', opt_bool (explode_f (base_of s))),
                (''required'',
                   if parameterType = Path then JBool True
                   else opt_bool (required_f (base_of s))),
                (''schema'',
                   JObj (obj_rest [''description'', ''example'', ''required'']
                           (properties_of frag)))])))"

fun asParameterList :: "ParameterType \<Rightarrow> Options \<Rightarrow> file_table \<Rightarrow> schema \<Rightarrow> error + json list" where
  "asParameterList parameterType opts ef (ObjectField b flds ap) =
     seqE (map (parameter parameterType opts ef) flds)"

text \<open>\<^verbatim>\<open>asResponseHeaders\<close>: the type and the description of each field.\<close>

definition response_header :: "Options \<Rightarrow> file_table \<Rightarrow> string \<times> schema \<Rightarrow> string \<times> (error + json)" where
  "response_header opts ef fld =
     (case fld of (key, s) \<Rightarrow>
        (key,
         case toJSonSchema opts ef s of
           Inl e \<Rightarrow> Inl e
         | Inr frag \<Rightarrow>
             Inr (JObj
               [(''schema'', JObj [(''type'', obj_get (properties_of frag) ''type'')]),
                (''description'', obj_get (properties_of frag) ''description'')])))"

fun asResponseHeaders :: "Options \<Rightarrow> file_table \<Rightarrow> schema \<Rightarrow> error + json" where
  "asResponseHeaders opts ef (ObjectField b flds ap) =
     (case reduce_properties (map (response_header opts ef) flds) [] of
        Inl e \<Rightarrow> Inl e
      | Inr hs \<Rightarrow> Inr (JObj hs))"

section \<open>Routes\<close>

record RouteResponse =
  statusCode :: nat
  response_description :: string
  response_schema :: "schema option"
  response_headers :: "schema option"
  response_examples :: "json option"

datatype Method = GET | POST | PUT | PATCH | DELETE

fun method_toLowerCase :: "Method \<Rightarrow> string" where
  "method_toLowerCase GET = ''get''"
| "method_toLowerCase POST = ''post''"
| "method_toLowerCase PUT = ''put''"
| "method_toLowerCase PATCH = ''patch''"
| "method_toLowerCase DELETE = ''delete''"

record Validate =
  validate_path :: "schema option"
  validate_query :: "schema option"
  validate_body :: "schema option"
  validate_headers :: "schema option"

record SecurityRequirement =
  requirement_name :: string
  requirement_scopes :: "string list"

record DefinedRoute =
  operationId :: string
  route_description :: string
  route_notes :: "string option"
  route_deprecated :: "bool option"
  route_method :: Method
  route_path :: string
  tags :: "string list option"
  validate :: "Validate option"
  successResponse :: RouteResponse
  errorResponses :: "RouteResponse list option"
  produces :: "string option"
  security :: "SecurityRequirement list option"
  route_order :: "int option"

record ReferencedRoute =
  ref_method :: Method
  ref_route_path :: string
  ref_order :: "int option"
  ref_file :: string
  ref_path :: string
  ref_deprecated :: "bool option"

datatype Route = Defined DefinedRoute | ByReference ReferencedRoute

fun order_of :: "Route \<Rightarrow> int option" where
  "order_of (Defined r) = route_order r"
| "order_of (ByReference r) = ref_order r"

fun path_of :: "Route \<Rightarrow> string" where
  "path_of (Defined r) = route_path r"
| "path_of (ByReference r) = ref_route_path r"

fun method_of :: "Route \<Rightarrow> Method" where
  "method_of (Defined r) = route_method r"
| "method_of (ByReference r) = ref_method r"

text \<open>
  The first match of \<^verbatim>\<open>/\/([^\/]+)/\<close> in the path: the characters after the first
  slash that is followed by something other than a slash, up to the next slash.
\<close>

fun pathAsTag :: "string \<Rightarrow> string option" where
  "pathAsTag [] = None"
| "pathAsTag (c # cs) =
     (if c = CHR ''/'' \<and> cs \<noteq> [] \<and> hd cs \<noteq> CHR ''/''
      then Some (takeWhile (\<lambda>x. x \<noteq> CHR ''/'') cs)
      else pathAsTag cs)"

text \<open>
  A status code as a property key: its decimal digits (as for every whole number
  below \<open>10^21\<close>).
\<close>

fun string_of_nat :: "nat \<Rightarrow> string" where
  "string_of_nat n =
     (if n < 10 then [char_of (48 + n)]
      else string_of_nat (n div 10) @ [char_of (48 + n mod 10)])"

declare string_of_nat.simps [simp del]

definition securityToJsonSchema :: "SecurityRequirement list \<Rightarrow> json" where
  "securityToJsonSchema reqs =
     JArr [JObj (fold (\<lambda>s acc. obj_set (requirement_name s)
                          (JArr (map JStr (requirement_scopes s))) acc) reqs [])]"

text \<open>\<^verbatim>\<open>x && f(x)\<close> and \<^verbatim>\<open>x?.f()\<close> for an optional \<open>x\<close> whose values are all truthy.\<close>

definition and_then :: "'a option \<Rightarrow> ('a \<Rightarrow> error + json) \<Rightarrow> error + json" where
  "and_then x f = (case x of None \<Rightarrow> Inr JUndefined | Some y \<Rightarrow> f y)"

definition toResponseSchema :: "RouteResponse \<Rightarrow> Options \<Rightarrow> file_table \<Rightarrow> error + json" where
  "toResponseSchema response opts ef =
     (case response_schema response of
        Some s \<Rightarrow>
          (case and_then (response_headers response) (asResponseHeaders opts ef) of
             Inl e \<Rightarrow> Inl e
           | Inr hs \<Rightarrow>
               (case toJSonSchema opts ef s of
                  Inl e \<Rightarrow> Inl e
                | Inr frag \<Rightarrow>
                    Inr (JObj (ignoreUndefined
                      [(''description'', JStr (response_description response)),
                       (''headers'', hs),
                       (''content'',
                          JObj [(''application/json'',
                            JObj [(''schema'', frag),
                                  (''examples'', opt_json (response_examples response))])])]))))
      | None \<Rightarrow> Inr (JObj [(''description'', JStr (response_description response))]))"

text \<open>
  \<^verbatim>\<open>route.validate?.headers?.asParameterList("header", options) || []\<close> and its two
  siblings: a missing object gives the empty list.
\<close>

definition parameters_in :: "ParameterType \<Rightarrow> schema option \<Rightarrow> Options \<Rightarrow> file_table \<Rightarrow> error + json list" where
  "parameters_in parameterType obj opts ef =
     (case obj of None \<Rightarrow> Inr [] | Some s \<Rightarrow> asParameterList parameterType opts ef s)"

definition validate_field :: "(Validate \<Rightarrow> schema option) \<Rightarrow> DefinedRoute \<Rightarrow> schema option" where
  "validate_field sel route = (case validate route of None \<Rightarrow> None | Some v \<Rightarrow> sel v)"

text \<open>
  The array \<^verbatim>\<open>parameters\<close> of \<^verbatim>\<open>routeToJsonSchema\<close>: three spreads into one array
  literal, evaluated from left to right.
\<close>

definition route_parameters :: "DefinedRoute \<Rightarrow> Options \<Rightarrow> file_table \<Rightarrow> error + json list" where
  "route_parameters route opts ef =
     (case parameters_in Header (validate_field validate_headers route) opts ef of
        Inl e \<Rightarrow> Inl e
      | Inr hs \<Rightarrow>
     (case parameters_in Path (validate_field validate_path route) opts ef of
        Inl e \<Rightarrow> Inl e
      | Inr ps \<Rightarrow>
     (case parameters_in Query (validate_field validate_query route) opts ef of
        Inl e \<Rightarrow> Inl e
      | Inr qs \<Rightarrow> Inr (hs @ ps @ qs))))"

text \<open>The responses: the success response, then the error responses spread over it.\<close>

fun reduce_responses :: "RouteResponse list \<Rightarrow> Options \<Rightarrow> file_table \<Rightarrow> json js_object \<Rightarrow> error + json js_object" where
  "reduce_responses [] opts ef acc = Inr acc"
| "reduce_responses (response # rest) opts ef acc =
     (case toResponseSchema response opts ef of
        Inl e \<Rightarrow> Inl e
      | Inr j \<Rightarrow> reduce_responses rest opts ef (obj_set (string_of_nat (statusCode response)) j acc))"

definition route_responses :: "DefinedRoute \<Rightarrow> Options \<Rightarrow> file_table \<Rightarrow> error + json" where
  "route_responses route opts ef =
     (case toResponseSchema (successResponse route) opts ef of
        Inl e \<Rightarrow> Inl e
      | Inr ok \<Rightarrow>
          (case reduce_responses (case errorResponses route of None \<Rightarrow> [] | Some rs \<Rightarrow> rs)
                  opts ef [] of
             Inl e \<Rightarrow> Inl e
           | Inr errs \<Rightarrow>
               Inr (JObj (obj_spread errs
                            [(string_of_nat (statusCode (successResponse route)), ok)]))))"

definition route_requestBody :: "DefinedRoute \<Rightarrow> Options \<Rightarrow> file_table \<Rightarrow> error + json" where
  "route_requestBody route opts ef =
     and_then (validate_field validate_body route)
       (\<lambda>body. case toJSonSchema opts ef body of
            Inl e \<Rightarrow> Inl e
          | Inr frag \<Rightarrow>
              Inr (JObj [(''content'',
                JObj [(''application/json'',
                  JObj [(''schema'', frag),
                        (''examples'', opt_json (examples_f (base_of body)))])])]))"

definition route_tags :: "DefinedRoute \<Rightarrow> json" where
  "route_tags route =
     (case tags route of
        Some ts \<Rightarrow> JArr (map JStr ts)
      | None \<Rightarrow>
          (case pathAsTag (route_path route) of
             Some t \<Rightarrow> JArr [JStr t]
           | None \<Rightarrow> JUndefined))"

fun routeToJsonSchema :: "Route \<Rightarrow> Options \<Rightarrow> file_table \<Rightarrow> error + json" where
  "routeToJsonSchema (Defined route) opts ef =
     (case route_parameters route opts ef of
        Inl e \<Rightarrow> Inl e
      | Inr parameters \<Rightarrow>
     (case route_requestBody route opts ef of
        Inl e \<Rightarrow> Inl e
      | Inr requestBody \<Rightarrow>
     (case route_responses route opts ef of
        Inl e \<Rightarrow> Inl e
      | Inr responses \<Rightarrow>
          Inr (JObj (ignoreUndefined
            [(''summary'', JStr (route_description route)),
             (''operationId'', JStr (operationId route)),
             (''description'', opt_str (route_notes route)),
             (''deprecated'', opt_bool (route_deprecated route)),
             (''parameters'', if parameters = [] then JUndefined else JArr parameters),
             (''requestBody'', requestBody),
             (''tags'', route_tags route),
             (''security'',
                case security route of
                  None \<Rightarrow> JUndefined
                | Some reqs \<Rightarrow> securityToJsonSchema reqs),
             (''responses'', responses),
             (''x-order'', opt_num (route_order route))])))))"
| "routeToJsonSchema (ByReference route) opts ef =
     Inr (JObj (ignoreUndefined
       [(''$ref'', JStr (ref_file route @ ''#'' @ ref_path route)),
        (''deprecated'', opt_bool (ref_deprecated route))]))"

section \<open>Building the document\<close>

subsection \<open>Duplicate labels\<close>

text \<open>
  A value of \<^verbatim>\<open>schemaCount\<close>. \<^verbatim>\<open>(acc[s] || 0) + 1\<close> is a number as long as \<^verbatim>\<open>acc[s]\<close>
  is a number or \<^verbatim>\<open>undefined\<close>. When \<^verbatim>\<open>acc[s]\<close> is a member that the empty object
  inherits, or a string, \<^verbatim>\<open>+ 1\<close> appends the character 1 to its text: \<open>NotANumber\<close>,
  for which \<^verbatim>\<open>> 1\<close> is false.
\<close>

datatype tally = Tally nat | NotANumber

definition count_step :: "string \<Rightarrow> tally js_object \<Rightarrow> tally js_object" where
  "count_step s acc =
     obj_set s
       (case js_get acc s of
          Own (Tally n) \<Rightarrow> Tally (n + 1)
        | Own NotANumber \<Rightarrow> NotANumber
        | Inherited \<Rightarrow> NotANumber
        | Absent \<Rightarrow> Tally 1)
       acc"

definition schemaCount :: "string list \<Rightarrow> tally js_object" where
  "schemaCount registered = fold count_step registered []"

definition getDuplicateFixedSchemas :: "store \<Rightarrow> string list" where
  "getDuplicateFixedSchemas st =
     map fst (filter (\<lambda>(s, c). case c of Tally n \<Rightarrow> n > 1 | NotANumber \<Rightarrow> False)
                (schemaCount (registeredFixedSchemas st)))"

subsection \<open>External files\<close>

text \<open>
  What the build uses from outside: \<^verbatim>\<open>path.join\<close>; whether the reference parser
  can dereference a file; the normalization of the assembled document (the reference
  parser, \<^verbatim>\<open>dereference\<close> or \<^verbatim>\<open>bundle\<close>, and the formatter), which gives the text of
  the document or fails.
\<close>

record env =
  path_join :: "string \<Rightarrow> string \<Rightarrow> string"
  dereference_file :: "string \<Rightarrow> error option"
  normalize_document :: "Options \<Rightarrow> json \<Rightarrow> error + string"

definition getFilename :: "string \<Rightarrow> string" where
  "getFilename path = rev (takeWhile (\<lambda>c. c \<noteq> CHR ''/'') (rev path))"

definition targetFilename :: "env \<Rightarrow> string \<Rightarrow> nat \<Rightarrow> string \<Rightarrow> string" where
  "targetFilename E tempDir i externalFilePath =
     path_join E tempDir (''spec-'' @ string_of_nat i @ ''-'' @ getFilename externalFilePath)"

text \<open>The first loop: the files of the referenced routes are entered, unresolved.\<close>

fun enter_route_files :: "Route list \<Rightarrow> file_table \<Rightarrow> file_table" where
  "enter_route_files [] ef = ef"
| "enter_route_files (Defined r # rest) ef = enter_route_files rest ef"
| "enter_route_files (ByReference r # rest) ef =
     enter_route_files rest (js_assign (ref_file r) [] ef)"

text \<open>
  The second loop, over the keys of the table with their positions. The files are
  dereferenced concurrently and the first failure rejects the whole step; the model
  takes them in order, so that after a failure the table holds the entries made
  before the failing file (one of the possible outcomes).
\<close>

fun resolve_files :: "env \<Rightarrow> string \<Rightarrow> (nat \<times> string) list \<Rightarrow> file_table \<Rightarrow> error option \<times> file_table" where
  "resolve_files E tempDir [] ef = (None, ef)"
| "resolve_files E tempDir ((i, externalFilePath) # rest) ef =
     (case dereference_file E externalFilePath of
        Some e \<Rightarrow> (Some e, ef)
      | None \<Rightarrow>
          resolve_files E tempDir rest
            (js_assign externalFilePath (targetFilename E tempDir i externalFilePath) ef))"

definition dereferenceExternalSchemas :: "env \<Rightarrow> Route list \<Rightarrow> string \<Rightarrow> file_table \<Rightarrow> error option \<times> file_table" where
  "dereferenceExternalSchemas E routes tempDir ef =
     (let ef' = enter_route_files routes ef
      in resolve_files E tempDir (enumerate 0 (map fst ef')) ef')"

subsection \<open>Sorting the routes and building the path items\<close>

text \<open>
  \<^verbatim>\<open>Array.prototype.sort\<close> with a comparator is stable: elements that compare equal
  keep their order. Its result is computed here by insertion from the right, each
  element going in front of the first one it does not compare greater than.

  An order is a finite number. For an order that is \<^verbatim>\<open>NaN\<close> or infinite the
  comparator returns \<^verbatim>\<open>NaN\<close> (already for the route compared with itself); it is then
  no consistent comparison function and the language leaves the order of the sorted
  array to the implementation. Such orders are outside the model.
\<close>

fun insert_sorted :: "('a \<Rightarrow> 'a \<Rightarrow> int) \<Rightarrow> 'a \<Rightarrow> 'a list \<Rightarrow> 'a list" where
  "insert_sorted cmp a [] = [a]"
| "insert_sorted cmp a (b # bs) =
     (if cmp a b \<le> 0 then a # b # bs else b # insert_sorted cmp a bs)"

definition js_sort :: "('a \<Rightarrow> 'a \<Rightarrow> int) \<Rightarrow> 'a list \<Rightarrow> 'a list" where
  "js_sort cmp xs = foldr (insert_sorted cmp) xs []"

definition compare_routes :: "Route \<Rightarrow> Route \<Rightarrow> int" where
  "compare_routes a b =
     (case order_of a of None \<Rightarrow> 10000 | Some n \<Rightarrow> n)
     - (case order_of b of None \<Rightarrow> 10000 | Some n \<Rightarrow> n)"

definition sortedRoutes :: "Route list \<Rightarrow> Route list" where
  "sortedRoutes routes = js_sort compare_routes routes"

text \<open>
  One step of the \<^verbatim>\<open>reduce\<close> that builds \<^verbatim>\<open>paths\<close>: the path item of the route is
  created when \<^verbatim>\<open>acc[route.path]\<close> is \<^verbatim>\<open>undefined\<close>, and receives the operation under
  the method. When \<^verbatim>\<open>acc[route.path]\<close> is an inherited member the operation is written
  to that member and \<open>acc\<close> stays as it is.
\<close>

definition insert_operation :: "Route \<Rightarrow> json \<Rightarrow> json js_object js_object \<Rightarrow> json js_object js_object" where
  "insert_operation route operation acc =
     (case js_get acc (path_of route) of
        Own item \<Rightarrow>
          obj_set (path_of route)
            (obj_set (method_toLowerCase (method_of route)) operation item) acc
      | Inherited \<Rightarrow> acc
      | Absent \<Rightarrow>
          obj_set (path_of route) [(method_toLowerCase (method_of route), operation)] acc)"

fun reduce_paths :: "Route list \<Rightarrow> Options \<Rightarrow> file_table \<Rightarrow> json js_object js_object \<Rightarrow> error + json js_object js_object" where
  "reduce_paths [] opts ef acc = Inr acc"
| "reduce_paths (route # rest) opts ef acc =
     (case routeToJsonSchema route opts ef of
        Inl e \<Rightarrow> Inl e
      | Inr operation \<Rightarrow> reduce_paths rest opts ef (insert_operation route operation acc))"

definition paths :: "Route list \<Rightarrow> Options \<Rightarrow> file_table \<Rightarrow> error + json js_object js_object" where
  "paths routes opts ef = reduce_paths (sortedRoutes routes) opts ef []"

subsection \<open>Components\<close>

fun collectRefSchemasForSchema :: "schema \<Rightarrow> schema list" where
  "collectRefSchemasForSchema (FixedSchema b s l) =
     FixedSchema b s l # collectRefSchemasForSchema s"
| "collectRefSchemasForSchema (ObjectField b flds ap) =
     concat (map (\<lambda>(key, s). collectRefSchemasForSchema s) flds)"
| "collectRefSchemasForSchema (ArrayField b it) =
     (case it of None \<Rightarrow> [] | Some s \<Rightarrow> collectRefSchemasForSchema s)"
| "collectRefSchemasForSchema s = []"

definition collect_optional :: "schema option \<Rightarrow> schema list" where
  "collect_optional x = (case x of None \<Rightarrow> [] | Some s \<Rightarrow> collectRefSchemasForSchema s)"

text \<open>
  \<^verbatim>\<open>"validate" in route\<close> is the test: a defined route that has no \<^verbatim>\<open>validate\<close>
  contributes nothing. (\<open>None\<close> stands for a missing key; a route object that has the
  key with the value \<^verbatim>\<open>undefined\<close> is outside the model.)
\<close>

fun collectRefSchemasForRoute :: "Route \<Rightarrow> schema list" where
  "collectRefSchemasForRoute (ByReference r) = []"
| "collectRefSchemasForRoute (Defined r) =
     (case validate r of
        None \<Rightarrow> []
      | Some v \<Rightarrow>
          concat (map collect_optional
            ([validate_path v, validate_headers v, validate_query v, validate_body v,
              response_schema (successResponse r)]
             @ (case errorResponses r of
                  None \<Rightarrow> []
                | Some rs \<Rightarrow> map response_schema rs))))"

text \<open>\<^verbatim>\<open>toComponent\<close> of a \<^verbatim>\<open>FixedSchema\<close>, and the \<^verbatim>\<open>reduce\<close> of \<^verbatim>\<open>toSchemaObject\<close>.\<close>

fun toComponent :: "schema \<Rightarrow> Options \<Rightarrow> file_table \<Rightarrow> error + json js_object" where
  "toComponent (FixedSchema b s l) opts ef =
     (case toJSonSchema opts ef s of
        Inl e \<Rightarrow> Inl e
      | Inr frag \<Rightarrow> Inr [(toSchemaName l, frag)])"

fun toSchemaObject :: "schema list \<Rightarrow> Options \<Rightarrow> file_table \<Rightarrow> json js_object \<Rightarrow> error + json js_object" where
  "toSchemaObject [] opts ef acc = Inr acc"
| "toSchemaObject (s # rest) opts ef acc =
     (case toComponent s opts ef of
        Inl e \<Rightarrow> Inl e
      | Inr c \<Rightarrow> toSchemaObject rest opts ef (obj_spread c acc))"

subsection \<open>\<^verbatim>\<open>makeSchema\<close>\<close>

datatype Output = Stdout | ToFile string | NoOutput

record Params =
  openapiVersion :: string
  info :: json
  servers :: json
  document_tags :: "string list"
  routes :: "Route list"
  document_security :: "SecurityRequirement list option"
  securitySchemes :: "json option"
  transformations :: "(string \<Rightarrow> error + string) option"
  output_f :: Output

text \<open>
  The state of the process: the store, what was printed and what was written to
  named files.
\<close>

record process =
  heap :: store
  console :: "string list"
  written :: "(string \<times> string) list"

fun join_comma :: "string list \<Rightarrow> string" where
  "join_comma [] = []"
| "join_comma [x] = x"
| "join_comma (x # y # rest) = x @ '','' @ join_comma (y # rest)"

definition document :: "Params \<Rightarrow> json js_object js_object \<Rightarrow> json js_object \<Rightarrow> json" where
  "document params ps schemas =
     JObj
       [(''openapi'', JStr (openapiVersion params)),
        (''security'',
           case document_security params of
             None \<Rightarrow> JUndefined
           | Some reqs \<Rightarrow> securityToJsonSchema reqs),
        (''info'', info params),
        (''tags'', JArr (map JStr (document_tags params))),
        (''paths'', JObj (map (\<lambda>(k, item). (k, JObj item)) ps)),
        (''servers'', servers params),
        (''components'',
           JObj [(''securitySchemes'', opt_json (securitySchemes params)),
                 (''schemas'', JObj schemas)])]"

text \<open>
  The body that \<^verbatim>\<open>makeSchema\<close> runs inside the temporary directory. The result is
  the error thrown, if any, with the state the process is left in.
\<close>

definition makeSchema :: "env \<Rightarrow> string \<Rightarrow> Params \<Rightarrow> Options \<Rightarrow> process \<Rightarrow> (error + unit) \<times> process" where
  "makeSchema E tempDir params opts p =
     (let duplicates = getDuplicateFixedSchemas (heap p) in
      if opts = Referenced \<and> duplicates \<noteq> []
      then (Inl (Error (''Found duplicate fixed schemas: '' @ join_comma duplicates)), p)
      else
        case dereferenceExternalSchemas E (routes params) tempDir (externalFiles (heap p)) of
          (failure, ef) \<Rightarrow>
            (let p1 = p\<lparr>heap := (heap p)\<lparr>externalFiles := ef\<rparr>\<rparr> in
             case failure of Some e \<Rightarrow> (Inl e, p1) | None \<Rightarrow>
             case paths (routes params) opts ef of
               Inl e \<Rightarrow> (Inl e, p1)
             | Inr ps \<Rightarrow>
                 (case (if opts = Referenced
                        then toSchemaObject
                               (concat (map collectRefSchemasForRoute (routes params)))
                               opts ef []
                        else Inr []) of
                    Inl e \<Rightarrow> (Inl e, p1)
                  | Inr schemas \<Rightarrow>
                      (case normalize_document E opts (document params ps schemas) of
                         Inl e \<Rightarrow> (Inl e, p1)
                       | Inr finalSchema \<Rightarrow>
                           (let p2 = (case output_f params of
                                        ToFile filename \<Rightarrow>
                                          p1\<lparr>written := written p1 @ [(filename, finalSchema)]\<rparr>
                                      | _ \<Rightarrow> p1)
                            in case (case transformations params of
                                       None \<Rightarrow> Inr finalSchema
                                     | Some t \<Rightarrow> t finalSchema) of
                                 Inl e \<Rightarrow> (Inl e, p2)
                               | Inr printed \<Rightarrow>
                                   (Inr (),
                                    if output_f params = Stdout
                                    then p2\<lparr>console := console p2 @ [printed]\<rparr>
                                    else p2))))))"

section \<open>Notions used in the statements\<close>

text \<open>
  The keys of the object literal that \<^verbatim>\<open>ExtensibleSchema.toJSonSchema\<close> filters for an
  \<^verbatim>\<open>ObjectField\<close>, given the values of \<^verbatim>\<open>properties\<close> and \<^verbatim>\<open>required\<close>.
\<close>

definition object_fields :: "base \<Rightarrow> json \<Rightarrow> bool option \<Rightarrow> json \<Rightarrow> json js_object" where
  "object_fields b props ap req =
       [(''type'', JStr ''object''), (''format'', JUndefined),
        (''description'', opt_str (description_f b)), (''example'', example_f b),
        (''deprecated'', opt_bool (deprecated_f b)),
        (''properties'', props), (''additionaProperties'', opt_bool ap),
        (''required'', req)]"


text \<open>
  The keys of an object to which the key \<open>k\<close> is added when it is not there yet.
\<close>

definition add_key :: "string \<Rightarrow> string list \<Rightarrow> string list" where
  "add_key k ks = (if k \<in> set ks then ks else ks @ [k])"


section \<open>Properties of plain objects\<close>

lemma is_array_index_Cons: "\<not> is_digit c \<Longrightarrow> is_array_index (c # cs) = False"
  by (simp add: is_array_index_def)

lemma obj_set_Nil: "obj_set k v [] = [(k, v)]"
  by (simp add: obj_set_def has_key_def)

lemma obj_set_Cons_eq: "obj_set k v ((k, v') # rest) = (k, v) # rest"
  by (simp add: obj_set_def has_key_def)

lemma obj_set_Cons_neq:
  "k \<noteq> k' \<Longrightarrow> \<not> is_array_index k \<Longrightarrow> obj_set k v ((k', v') # rest) = (k', v') # obj_set k v rest"
  by (simp add: obj_set_def has_key_def)

lemmas obj_eval = is_array_index_Cons is_digit_def obj_set_Nil obj_set_Cons_eq obj_set_Cons_neq

lemma has_key_iff: "has_key k obj \<longleftrightarrow> k \<in> fst ` set obj"
  by (simp add: has_key_def map_of_eq_None_iff)

lemma set_replace_key: "set (replace_key k v obj) \<subseteq> insert (k, v) (set obj)"
  by (induction obj) (auto split: if_splits)

lemma set_insert_index: "set (insert_index k v obj) = insert (k, v) (set obj)"
  by (induction obj) (auto split: if_splits)

lemma set_obj_set: "set (obj_set k v obj) \<subseteq> insert (k, v) (set obj)"
  using set_replace_key [of k v obj] by (auto simp: obj_set_def set_insert_index)

lemma map_fst_replace_key: "map fst (replace_key k v obj) = map fst obj"
  by (induction obj) auto

lemma keys_replace_key: "fst ` set (replace_key k v obj) = fst ` set obj"
  using map_fst_replace_key [of k v obj] by (metis set_map)

lemma keys_obj_set: "fst ` set (obj_set k v obj) = insert k (fst ` set obj)"
  by (auto simp: obj_set_def set_insert_index keys_replace_key has_key_iff)

lemma obj_set_append:
  "k \<notin> fst ` set obj \<Longrightarrow> \<not> is_array_index k \<Longrightarrow> obj_set k v obj = obj @ [(k, v)]"
  by (simp add: obj_set_def has_key_iff)

lemma ignoreUndefined_fold:
  "distinct (map fst (acc @ fs)) \<Longrightarrow> \<forall>k \<in> fst ` set fs. \<not> is_array_index k \<Longrightarrow>
   fold (\<lambda>(key, v) acc. if v = JUndefined then acc else obj_set key v acc) fs acc
     = acc @ filter (\<lambda>(k, v). v \<noteq> JUndefined) fs"
proof (induction fs arbitrary: acc)
  case Nil
  then show ?case by simp
next
  case (Cons kv fs)
  obtain k v where kv: "kv = (k, v)" by (cases kv)
  show ?case
  proof (cases "v = JUndefined")
    case True
    have "distinct (map fst (acc @ fs))" using Cons.prems(1) by (simp add: kv)
    then show ?thesis using Cons.IH [of acc] Cons.prems(2) True by (simp add: kv)
  next
    case False
    have k: "k \<notin> fst ` set acc" "\<not> is_array_index k" using Cons.prems by (auto simp: kv)
    have d: "distinct (map fst ((acc @ [(k, v)]) @ fs))" using Cons.prems(1) by (simp add: kv)
    show ?thesis using Cons.IH [OF d] Cons.prems(2) False k by (simp add: kv obj_set_append)
  qed
qed

lemma ignoreUndefined_filter:
  "distinct (map fst fs) \<Longrightarrow> \<forall>k \<in> fst ` set fs. \<not> is_array_index k \<Longrightarrow>
   ignoreUndefined fs = filter (\<lambda>(k, v). v \<noteq> JUndefined) fs"
  using ignoreUndefined_fold [of "[]" fs] by (simp add: ignoreUndefined_def)

lemma map_of_filter_values:
  "distinct (map fst xs) \<Longrightarrow>
   map_of (filter (\<lambda>(k, v). P v) xs) k =
     (case map_of xs k of None \<Rightarrow> None | Some v \<Rightarrow> if P v then Some v else None)"
proof (induction xs)
  case Nil
  then show ?case by simp
next
  case (Cons kv xs)
  obtain k' v' where kv: "kv = (k', v')" by (cases kv)
  have "k' \<notin> fst ` set xs" using Cons.prems by (simp add: kv)
  then have none: "map_of xs k' = None" by (simp add: map_of_eq_None_iff)
  show ?case using Cons none by (auto simp: kv split: option.splits)
qed

lemma keys_filter: "fst ` set (filter P xs) \<subseteq> fst ` set xs"
  by auto

section \<open>The fragment of each class\<close>

text \<open>
  What \<^verbatim>\<open>toJSonSchema\<close> returns for each field class: the keys in the order of the
  object literal, those bound to \<^verbatim>\<open>undefined\<close> left out.
\<close>

lemmas frag_eval = extensible_fragment_def baseFields_def obj_spread_def obj_rest_def obj_get_def obj_eval

lemma fragment_String:
  "toJSonSchema opts ef (StringField b mn mx re) =
     Inr (JObj (filter (\<lambda>(k, v). v \<noteq> JUndefined)
       [(''type'', JStr ''string''), (''format'', JUndefined),
        (''description'', opt_str (description_f b)), (''example'', example_f b),
        (''deprecated'', opt_bool (deprecated_f b)),
        (''minLength'', opt_num mn), (''maxLength'', opt_num mx), (''pattern'', opt_str re)]))"
  apply (simp add: extensible_fragment_def baseFields_def obj_spread_def obj_rest_def obj_get_def obj_eval del: filter.simps)
  apply (subst ignoreUndefined_filter)
    apply (simp_all add: obj_eval)
  done

lemma fragment_Boolean:
  "toJSonSchema opts ef (BooleanField b) =
     Inr (JObj (filter (\<lambda>(k, v). v \<noteq> JUndefined)
       [(''type'', JStr ''boolean''), (''format'', JUndefined),
        (''description'', opt_str (description_f b)), (''example'', example_f b),
        (''deprecated'', opt_bool (deprecated_f b))]))"
  apply (simp add: frag_eval del: filter.simps)
  apply (subst ignoreUndefined_filter)
    apply (simp_all add: obj_eval)
  done

lemma fragment_Date:
  "toJSonSchema opts ef (DateField b fmt) =
     Inr (JObj (filter (\<lambda>(k, v). v \<noteq> JUndefined)
       [(''type'', JStr ''string''), (''format'', opt_str fmt),
        (''description'', opt_str (description_f b)), (''example'', example_f b),
        (''deprecated'', opt_bool (deprecated_f b))]))"
  apply (simp add: frag_eval del: filter.simps)
  apply (subst ignoreUndefined_filter)
    apply (simp_all add: obj_eval)
  done

lemma fragment_Number:
  "toJSonSchema opts ef (NumberField b mn mx df) =
     Inr (JObj (filter (\<lambda>(k, v). v \<noteq> JUndefined)
       [(''type'', JStr ''number''), (''format'', JUndefined),
        (''description'', opt_str (description_f b)), (''example'', example_f b),
        (''deprecated'', opt_bool (deprecated_f b)),
        (''minimum'', opt_num mn), (''maximum'', opt_num mx), (''default'', opt_num df)]))"
  apply (simp add: frag_eval del: filter.simps)
  apply (subst ignoreUndefined_filter)
    apply (simp_all add: obj_eval)
  done

lemma fragment_Enum:
  "toJSonSchema opts ef (EnumField b vs) =
     Inr (JObj (filter (\<lambda>(k, v). v \<noteq> JUndefined)
       [(''type'', JStr ''string''), (''format'', JUndefined),
        (''description'', opt_str (description_f b)), (''example'', example_f b),
        (''deprecated'', opt_bool (deprecated_f b)),
        (''enum'', JArr (map JStr vs))]))"
  apply (simp add: frag_eval del: filter.simps)
  apply (subst ignoreUndefined_filter)
    apply (simp_all add: obj_eval)
  done

lemma extensible_fragment_Object:
  "extensible_fragment b
            [(''type'', JStr ''object''),
             (''description'', opt_str (description_f b)),
             (''properties'', props),
             (''additionaProperties'', opt_bool ap),
             (''required'', req)]
   = JObj (filter (\<lambda>(k, v). v \<noteq> JUndefined) (object_fields b props ap req))"
  apply (simp add: frag_eval object_fields_def del: filter.simps)
  apply (subst ignoreUndefined_filter)
    apply (simp_all add: obj_eval)
  done

lemma extensible_fragment_Array:
  "extensible_fragment b [(''type'', JStr ''array''), (''items'', items)]
   = JObj (filter (\<lambda>(k, v). v \<noteq> JUndefined)
       [(''type'', JStr ''array''), (''format'', JUndefined),
        (''description'', opt_str (description_f b)), (''example'', example_f b),
        (''deprecated'', opt_bool (deprecated_f b)), (''items'', items)])"
  apply (simp add: frag_eval del: filter.simps)
  apply (subst ignoreUndefined_filter)
    apply (simp_all add: obj_eval)
  done

lemma toJSonSchema_is_object:
  "toJSonSchema opts ef s = Inr j \<Longrightarrow> \<exists>kvs. j = JObj kvs"
proof (induction s arbitrary: j)
  case (FixedSchema b s l)
  then show ?case by (cases opts) auto
next
  case (ObjectField b flds ap)
  then show ?case by (auto simp: extensible_fragment_def Let_def split: sum.splits if_splits)
next
  case (ArrayField b it)
  then show ?case by (auto simp: extensible_fragment_def split: sum.splits option.splits)
qed (auto simp: extensible_fragment_def split: sum.splits property.splits if_splits)

lemma toJSonSchema_defined:
  "toJSonSchema opts ef s = Inr j \<Longrightarrow>
     \<exists>kvs. j = JObj kvs \<and> (\<forall>(k, v) \<in> set kvs. v \<noteq> JUndefined)"
proof (induction s arbitrary: j)
  case (StringField b mn mx re)
  then show ?case unfolding fragment_String by auto
next
  case (BooleanField b)
  then show ?case unfolding fragment_Boolean by auto
next
  case (DateField b fmt)
  then show ?case unfolding fragment_Date by auto
next
  case (NumberField b mn mx df)
  then show ?case unfolding fragment_Number by auto
next
  case (EnumField b vs)
  then show ?case unfolding fragment_Enum by auto
next
  case (ObjectField b flds ap)
  from ObjectField.prems show ?case
    by (auto simp: extensible_fragment_Object object_fields_def Let_def split: sum.splits if_splits)
next
  case (ArrayField b it)
  from ArrayField.prems show ?case
    by (auto simp: extensible_fragment_Array split: sum.splits option.splits
             dest: toJSonSchema_is_object)
next
  case (FixedSchema b s l)
  then show ?case by (cases opts) auto
next
  case (ReferenceSchema b f p)
  then show ?case by (auto split: property.splits if_splits)
next
  case (OneOfSchema b ss)
  then show ?case by (auto split: sum.splits)
next
  case (AnyOfSchema b ss)
  then show ?case by (auto split: sum.splits)
qed

lemma example_of_filtered:
  assumes "distinct (map fst xs)" and "map_of xs ''example'' = Some e" and "e \<noteq> JUndefined"
  shows "map_of (filter (\<lambda>(k, v). v \<noteq> JUndefined) xs) ''example'' = Some e"
  using assms by (simp add: map_of_filter_values)

lemma example_is_emitted:
  assumes "toJSonSchema opts ef s = Inr (JObj kvs)" and "is_ExtensibleSchema s"
    and "example_f (base_of s) \<noteq> JUndefined"
  shows "map_of kvs ''example'' = Some (example_f (base_of s))"
proof (cases s)
  case (StringField b mn mx re)
  with assms show ?thesis unfolding StringField fragment_String
    by (auto intro!: example_of_filtered)
next
  case (BooleanField b)
  with assms show ?thesis unfolding BooleanField fragment_Boolean
    by (auto intro!: example_of_filtered)
next
  case (DateField b fmt)
  with assms show ?thesis unfolding DateField fragment_Date
    by (auto intro!: example_of_filtered)
next
  case (NumberField b mn mx df)
  with assms show ?thesis unfolding NumberField fragment_Number
    by (auto intro!: example_of_filtered)
next
  case (EnumField b vs)
  with assms show ?thesis unfolding EnumField fragment_Enum
    by (auto intro!: example_of_filtered)
next
  case (ObjectField b flds ap)
  from assms(1) obtain props req where
    "kvs = filter (\<lambda>(k, v). v \<noteq> JUndefined) (object_fields b props ap req)"
    unfolding ObjectField
    by (auto simp: extensible_fragment_Object Let_def split: sum.splits if_splits)
  with assms(3) show ?thesis
    by (auto simp: ObjectField object_fields_def intro!: example_of_filtered)
next
  case (ArrayField b it)
  from assms(1) obtain items where
    "kvs = filter (\<lambda>(k, v). v \<noteq> JUndefined)
       [(''type'', JStr ''array''), (''format'', JUndefined),
        (''description'', opt_str (description_f b)), (''example'', example_f b),
        (''deprecated'', opt_bool (deprecated_f b)), (''items'', items)]"
    unfolding ArrayField
    by (auto simp: extensible_fragment_Array split: sum.splits option.splits)
  with assms(3) show ?thesis
    by (auto simp: ArrayField intro!: example_of_filtered)
qed (use assms(2) in auto)

section \<open>Serialization of a node\<close>

text \<open>
  C2. The object node \<^verbatim>\<open>object({id: string().required(), age: number().min(0)})\<close>
  serialized in flat mode is exactly
  \<^verbatim>\<open>{type: "object", properties: {id: {type: "string"}, age: {type: "number", minimum: 0}}, required: ["id"]}\<close>:
  three keys, none of them \<^verbatim>\<open>additionalProperties\<close>.
\<close>

theorem object_round_trip:
  "toJSonSchema Flat ef
     (oas_object [(''id'', required oas_string), (''age'', NumberField_min 0 oas_number)])
   = Inr (JObj
       [(''type'', JStr ''object''),
        (''properties'',
           JObj [(''id'', JObj [(''type'', JStr ''string'')]),
                 (''age'', JObj [(''type'', JStr ''number''), (''minimum'', JNum 0)])]),
        (''required'', JArr [JStr ''id''])])"
  by (simp add: oas_object_def oas_string_def oas_number_def required_def new_base_def
        frag_eval ignoreUndefined_def opt_num_def opt_str_def opt_bool_def)

text \<open>
  C8, as stated, fails: a node whose example was set to \<^verbatim>\<open>null\<close> is serialized with
  the key \<^verbatim>\<open>example\<close> bound to \<^verbatim>\<open>null\<close>.
\<close>

theorem null_example_is_emitted:
  "toJSonSchema Flat [] (example JNull oas_string)
   = Inr (JObj [(''type'', JStr ''string''), (''example'', JNull)])"
  by (simp add: oas_string_def example_def new_base_def
        frag_eval ignoreUndefined_def opt_num_def opt_str_def opt_bool_def)

text \<open>
  C8, amended. Whenever the serialization of a node returns, it returns an object in
  which no key is bound to \<^verbatim>\<open>undefined\<close>: an attribute that is \<^verbatim>\<open>undefined\<close> is left
  out. A \<^verbatim>\<open>null\<close> is not filtered: the example of a node of a field class is emitted
  under \<^verbatim>\<open>example\<close> whenever it is not \<^verbatim>\<open>undefined\<close>, also when it is \<^verbatim>\<open>null\<close>.
\<close>

theorem fragment_has_no_undefined:
  assumes "toJSonSchema opts ef s = Inr j"
  shows "\<exists>kvs. j = JObj kvs
           \<and> (\<forall>(k, v) \<in> set kvs. v \<noteq> JUndefined)
           \<and> (is_ExtensibleSchema s \<longrightarrow> example_f (base_of s) \<noteq> JUndefined \<longrightarrow>
                map_of kvs ''example'' = Some (example_f (base_of s)))"
proof -
  from toJSonSchema_defined [OF assms] obtain kvs where
    j: "j = JObj kvs" and d: "\<forall>(k, v) \<in> set kvs. v \<noteq> JUndefined" by blast
  from assms j have "toJSonSchema opts ef s = Inr (JObj kvs)" by simp
  from example_is_emitted [OF this] j d show ?thesis by blast
qed

theorem fragment_has_no_undefined_witness:
  "toJSonSchema Referenced [] (example JNull (description ''a name'' oas_boolean))
     = Inr (JObj [(''type'', JStr ''boolean''), (''description'', JStr ''a name''),
                  (''example'', JNull)])
   \<and> is_ExtensibleSchema (example JNull (description ''a name'' oas_boolean))
   \<and> example_f (base_of (example JNull (description ''a name'' oas_boolean))) = JNull
   \<and> list_all (\<lambda>(k, v). v \<noteq> JUndefined)
        [(''type'', JStr ''boolean''), (''description'', JStr ''a name''), (''example'', JNull)]
   \<and> map_of [(''type'', JStr ''boolean''), (''description'', JStr ''a name''),
              (''example'', JNull)] ''example'' = Some JNull"
proof -
  have run: "toJSonSchema Referenced [] (example JNull (description ''a name'' oas_boolean))
     = Inr (JObj [(''type'', JStr ''boolean''), (''description'', JStr ''a name''),
                  (''example'', JNull)])"
    by (simp add: oas_boolean_def description_def example_def new_base_def
        frag_eval ignoreUndefined_def opt_num_def opt_str_def opt_bool_def)
  have ext: "is_ExtensibleSchema (example JNull (description ''a name'' oas_boolean))"
    and ex: "example_f (base_of (example JNull (description ''a name'' oas_boolean))) = JNull"
    by (simp_all add: oas_boolean_def description_def example_def)
  from fragment_has_no_undefined [OF run] run ext ex show ?thesis by auto
qed



section \<open>Modifiers and the store\<close>

lemma call_frame:
  assumes "call m this st = Some (that, st')"
  shows "that = length (objects st) \<and> (\<exists>v. objects st' = objects st @ [v])
         \<and> externalFiles st' = externalFiles st"
proof (cases m)
  case (M_label d)
  with assms show ?thesis
    by (auto simp: call_def new_FixedSchema_def alloc_def Let_def split: if_splits)
qed (use assms in \<open>auto simp: call_def clone_def alloc_def assign_def Let_def
       split: if_splits option.splits\<close>)

lemma chain_frame:
  "chain ms this st = Some (that, st') \<Longrightarrow>
     (\<exists>new. objects st' = objects st @ new \<and> length new = length ms)
     \<and> externalFiles st' = externalFiles st
     \<and> (ms \<noteq> [] \<longrightarrow> length (objects st) \<le> that)"
proof (induction ms arbitrary: this st)
  case Nil
  then show ?case by simp
next
  case (Cons m ms)
  from Cons.prems obtain mid st1 where
    c: "call m this st = Some (mid, st1)" and r: "chain ms mid st1 = Some (that, st')"
    by (auto split: option.splits)
  from call_frame [OF c] obtain v where
    f: "mid = length (objects st)" "objects st1 = objects st @ [v]"
       "externalFiles st1 = externalFiles st" by auto
  from Cons.IH [OF r] obtain new where
    g: "objects st' = objects st1 @ new" "length new = length ms"
       "externalFiles st' = externalFiles st1" "ms \<noteq> [] \<longrightarrow> length (objects st1) \<le> that"
    by auto
  have "length (objects st) \<le> that"
  proof (cases ms)
    case Nil
    with r f show ?thesis by simp
  next
    case (Cons m' ms')
    with g f show ?thesis by simp
  qed
  with f g show ?case by simp
qed

lemmas store_eval = call_def clone_def alloc_def assign_def method_body_def empty_store_def
  serialize_def new_FixedSchema_def Let_def

lemmas node_eval = oas_object_def oas_string_def oas_number_def oas_boolean_def new_base_def
  required_def description_def example_def
  frag_eval ignoreUndefined_def opt_num_def opt_str_def opt_bool_def

text \<open>
  C1, as stated, fails in its example: the fragment of \<^verbatim>\<open>string().required()\<close> is
  \<^verbatim>\<open>{type: "string"}\<close>, with no key \<^verbatim>\<open>required\<close>; \<^verbatim>\<open>baseFields\<close> and \<^verbatim>\<open>ownFields\<close> never
  emit the flag.
\<close>

theorem required_is_not_serialized:
  "map_option (\<lambda>(b, st). serialize Flat st b)
     (call M_required 0 (snd (alloc oas_string empty_store)))
   = Some (Inr (JObj [(''type'', JStr ''string'')]))"
  by (simp add: store_eval node_eval)

text \<open>
  C1, amended. A modifier call returns a node at an address that was not allocated
  before and assigns to nothing else: after any chain of modifier calls every node
  that existed before is the same object value and has the same serialized fragment.
  In particular, for \<^verbatim>\<open>a = string()\<close> and \<^verbatim>\<open>b = a.required()\<close>: \<open>b\<close> is not \<open>a\<close>, the fragment
  of \<open>a\<close> is \<^verbatim>\<open>{type: "string"}\<close> before and after the call, the flag \<^verbatim>\<open>_required\<close> of
  \<open>a\<close> stays unset and that of \<open>b\<close> is true. (The flag is not part of a node's own
  fragment; the parent object lists the field under \<^verbatim>\<open>required\<close>, see C9.)
\<close>

theorem modifiers_never_mutate:
  "(chain ms this st = Some (that, st') \<longrightarrow> a < length (objects st) \<longrightarrow>
      objects st' ! a = objects st ! a
      \<and> serialize opts st' a = serialize opts st a
      \<and> (ms \<noteq> [] \<longrightarrow> length (objects st) \<le> that))
   \<and> (case call M_required 0 (snd (alloc oas_string empty_store)) of
         None \<Rightarrow> False
       | Some (b, st2) \<Rightarrow>
           b \<noteq> 0
           \<and> serialize opts (snd (alloc oas_string empty_store)) 0
               = Inr (JObj [(''type'', JStr ''string'')])
           \<and> serialize opts st2 0 = Inr (JObj [(''type'', JStr ''string'')])
           \<and> required_f (base_of (objects st2 ! 0)) = None
           \<and> required_f (base_of (objects st2 ! b)) = Some True)"
proof
  show "chain ms this st = Some (that, st') \<longrightarrow> a < length (objects st) \<longrightarrow>
      objects st' ! a = objects st ! a
      \<and> serialize opts st' a = serialize opts st a
      \<and> (ms \<noteq> [] \<longrightarrow> length (objects st) \<le> that)"
  proof (intro impI)
    assume c: "chain ms this st = Some (that, st')" and a: "a < length (objects st)"
    from chain_frame [OF c] obtain new where
      f: "objects st' = objects st @ new" "externalFiles st' = externalFiles st"
         "ms \<noteq> [] \<longrightarrow> length (objects st) \<le> that" by auto
    from f a have "objects st' ! a = objects st ! a" by (simp add: nth_append)
    with f show "objects st' ! a = objects st ! a
      \<and> serialize opts st' a = serialize opts st a
      \<and> (ms \<noteq> [] \<longrightarrow> length (objects st) \<le> that)"
      by (simp add: serialize_def)
  qed
next
  show "case call M_required 0 (snd (alloc oas_string empty_store)) of
         None \<Rightarrow> False
       | Some (b, st2) \<Rightarrow>
           b \<noteq> 0
           \<and> serialize opts (snd (alloc oas_string empty_store)) 0
               = Inr (JObj [(''type'', JStr ''string'')])
           \<and> serialize opts st2 0 = Inr (JObj [(''type'', JStr ''string'')])
           \<and> required_f (base_of (objects st2 ! 0)) = None
           \<and> required_f (base_of (objects st2 ! b)) = Some True"
    by (simp add: store_eval node_eval)
qed

theorem modifiers_never_mutate_witness:
  "chain [M_required, M_description ''id'', M_min 3] 0 (snd (alloc oas_string empty_store))
     = Some (3, \<lparr>objects =
          [oas_string,
           required oas_string,
           description ''id'' (required oas_string),
           StringField_min 3 (description ''id'' (required oas_string))],
          registeredFixedSchemas = [], externalFiles = []\<rparr>)
   \<and> (0::nat) < length (objects (snd (alloc oas_string empty_store)))
   \<and> serialize Flat \<lparr>objects =
          [oas_string,
           required oas_string,
           description ''id'' (required oas_string),
           StringField_min 3 (description ''id'' (required oas_string))],
          registeredFixedSchemas = [], externalFiles = []\<rparr> 0
       = serialize Flat (snd (alloc oas_string empty_store)) 0"
proof -
  have run: "chain [M_required, M_description ''id'', M_min 3] 0 (snd (alloc oas_string empty_store))
     = Some (3, \<lparr>objects =
          [oas_string,
           required oas_string,
           description ''id'' (required oas_string),
           StringField_min 3 (description ''id'' (required oas_string))],
          registeredFixedSchemas = [], externalFiles = []\<rparr>)"
    by (simp add: store_eval oas_string_def required_def description_def)
  have a: "(0::nat) < length (objects (snd (alloc oas_string empty_store)))"
    by (simp add: alloc_def)
  from modifiers_never_mutate [THEN conjunct1, rule_format, OF run a, of Flat] run a
  show ?thesis by simp
qed

section \<open>Parameter lists\<close>

lemma seqE_Inr_D: "seqE xs = Inr ys \<Longrightarrow> xs = map Inr ys"
  by (induction xs arbitrary: ys rule: seqE.induct) (auto split: sum.splits)

lemma seqE_of_Inr: "seqE (map Inr ys) = Inr ys"
  by (induction ys) auto

lemma seqE_map_Inr: "seqE xs = Inr ys \<longleftrightarrow> xs = map Inr ys"
  using seqE_Inr_D seqE_of_Inr by metis

lemma parameter_descriptor:
  assumes "parameter parameterType opts ef (key, s) = Inr d"
  shows "\<exists>kvs. d = JObj kvs \<and> map_of kvs ''name'' = Some (JStr key)
           \<and> map_of kvs ''in'' = Some (JStr (parameterType_name parameterType))
           \<and> map_of kvs ''required'' =
               Some (if parameterType = Path then JBool True
                     else opt_bool (required_f (base_of s)))"
  using assms by (auto simp: parameter_def split: sum.splits)

text \<open>
  C6. When \<^verbatim>\<open>asParameterList\<close> returns, it returns one descriptor for each field, in
  the order of the fields, and the descriptor of a field has \<^verbatim>\<open>required\<close> bound to
  \<^verbatim>\<open>true\<close> for the location \<^verbatim>\<open>path\<close>, whatever the flag of the field is, and to the
  field's own \<^verbatim>\<open>_required\<close> for every other location. It returns whenever the
  serialization of every field returns.
\<close>

theorem path_parameters_are_required:
  "(asParameterList parameterType opts ef (ObjectField b flds ap) = Inr ds \<longrightarrow>
      length ds = length flds
      \<and> (\<forall>i < length flds. \<exists>kvs.
            ds ! i = JObj kvs
            \<and> map_of kvs ''name'' = Some (JStr (fst (flds ! i)))
            \<and> map_of kvs ''in'' = Some (JStr (parameterType_name parameterType))
            \<and> map_of kvs ''required'' =
                Some (if parameterType = Path then JBool True
                      else opt_bool (required_f (base_of (snd (flds ! i)))))))
   \<and> ((\<forall>fld \<in> set flds. \<exists>j. toJSonSchema opts ef (fieldSchema (snd fld)) = Inr j) \<longrightarrow>
        (\<exists>ds. asParameterList parameterType opts ef (ObjectField b flds ap) = Inr ds))"
proof (intro conjI impI)
  assume r: "asParameterList parameterType opts ef (ObjectField b flds ap) = Inr ds"
  then have m: "map (parameter parameterType opts ef) flds = map Inr ds"
    by (simp add: seqE_map_Inr)
  then show "length ds = length flds" by (metis length_map)
  show "\<forall>i < length flds. \<exists>kvs.
            ds ! i = JObj kvs
            \<and> map_of kvs ''name'' = Some (JStr (fst (flds ! i)))
            \<and> map_of kvs ''in'' = Some (JStr (parameterType_name parameterType))
            \<and> map_of kvs ''required'' =
                Some (if parameterType = Path then JBool True
                      else opt_bool (required_f (base_of (snd (flds ! i)))))"
  proof (intro allI impI)
    fix i assume i: "i < length flds"
    have len: "length ds = length flds" using m by (metis length_map)
    have "map (parameter parameterType opts ef) flds ! i = map Inr ds ! i" using m by simp
    then have "parameter parameterType opts ef (fst (flds ! i), snd (flds ! i)) = Inr (ds ! i)"
      using i len by simp
    from parameter_descriptor [OF this] show "\<exists>kvs.
            ds ! i = JObj kvs
            \<and> map_of kvs ''name'' = Some (JStr (fst (flds ! i)))
            \<and> map_of kvs ''in'' = Some (JStr (parameterType_name parameterType))
            \<and> map_of kvs ''required'' =
                Some (if parameterType = Path then JBool True
                      else opt_bool (required_f (base_of (snd (flds ! i)))))" .
  qed
next
  assume ok: "\<forall>fld \<in> set flds. \<exists>j. toJSonSchema opts ef (fieldSchema (snd fld)) = Inr j"
  have "\<forall>fld \<in> set flds. \<exists>d. parameter parameterType opts ef fld = Inr d"
  proof
    fix fld assume "fld \<in> set flds"
    with ok obtain j where "toJSonSchema opts ef (fieldSchema (snd fld)) = Inr j" by blast
    then show "\<exists>d. parameter parameterType opts ef fld = Inr d"
      by (cases fld) (simp add: parameter_def)
  qed
  then have "\<exists>ds. map (parameter parameterType opts ef) flds = map Inr ds"
  proof (induction flds)
    case Nil
    then show ?case by simp
  next
    case (Cons fld flds)
    then obtain d ds where "parameter parameterType opts ef fld = Inr d"
      "map (parameter parameterType opts ef) flds = map Inr ds" by auto
    then have "map (parameter parameterType opts ef) (fld # flds) = map Inr (d # ds)" by simp
    then show ?case by blast
  qed
  then show "\<exists>ds. asParameterList parameterType opts ef (ObjectField b flds ap) = Inr ds"
    by (auto simp: seqE_map_Inr)
qed

theorem path_parameters_are_required_witness:
  "asParameterList Path Flat [] (ObjectField new_base [(''userId'', oas_string)] None)
     = Inr [JObj [(''description'', JUndefined), (''name'', JStr ''userId''),
                  (''in'', JStr ''path''), (''explode'', JUndefined),
                  (''required'', JBool True),
                  (''schema'', JObj [(''type'', JStr ''string'')])]]
   \<and> (0::nat) < length [(''userId'', oas_string)]
   \<and> required_f (base_of oas_string) = None
   \<and> (\<exists>kvs. [JObj [(''description'', JUndefined), (''name'', JStr ''userId''),
                  (''in'', JStr ''path''), (''explode'', JUndefined),
                  (''required'', JBool True),
                  (''schema'', JObj [(''type'', JStr ''string'')])]] ! 0 = JObj kvs
          \<and> map_of kvs ''required'' = Some (JBool True))"
proof -
  have run: "asParameterList Path Flat [] (ObjectField new_base [(''userId'', oas_string)] None)
     = Inr [JObj [(''description'', JUndefined), (''name'', JStr ''userId''),
                  (''in'', JStr ''path''), (''explode'', JUndefined),
                  (''required'', JBool True),
                  (''schema'', JObj [(''type'', JStr ''string'')])]]"
    by (simp add: parameter_def node_eval)
  have i: "(0::nat) < length [(''userId'', oas_string)]" by simp
  from path_parameters_are_required [THEN conjunct1, rule_format, OF run, THEN conjunct2,
         rule_format, OF i] run
  show ?thesis by (auto simp: oas_string_def new_base_def)
qed

lemma route_fragment:
  "JObj (ignoreUndefined
            [(''summary'', a1), (''operationId'', a2), (''description'', a3),
             (''deprecated'', a4), (''parameters'', a5), (''requestBody'', a6),
             (''tags'', a7), (''security'', a8), (''responses'', a9), (''x-order'', a10)])
   = JObj (filter (\<lambda>(k, v). v \<noteq> JUndefined)
            [(''summary'', a1), (''operationId'', a2), (''description'', a3),
             (''deprecated'', a4), (''parameters'', a5), (''requestBody'', a6),
             (''tags'', a7), (''security'', a8), (''responses'', a9), (''x-order'', a10)])"
  apply (subst ignoreUndefined_filter)
    apply (simp_all add: obj_eval)
  done

text \<open>
  C7. For a defined route, the \<^verbatim>\<open>parameters\<close> of the operation are the header
  parameters, then the path parameters, then the query parameters (the key is left
  out when there is none).
\<close>

theorem parameters_header_path_query:
  assumes "routeToJsonSchema (Defined route) opts ef = Inr j"
  shows "\<exists>hs ps qs kvs.
           parameters_in Header (validate_field validate_headers route) opts ef = Inr hs
           \<and> parameters_in Path (validate_field validate_path route) opts ef = Inr ps
           \<and> parameters_in Query (validate_field validate_query route) opts ef = Inr qs
           \<and> j = JObj kvs
           \<and> map_of kvs ''parameters'' =
               (if hs @ ps @ qs = [] then None else Some (JArr (hs @ ps @ qs)))"
proof -
  from assms obtain parameters requestBody responses where
    p: "route_parameters route opts ef = Inr parameters" and
    j: "j = JObj (filter (\<lambda>(k, v). v \<noteq> JUndefined)
            [(''summary'', JStr (route_description route)),
             (''operationId'', JStr (operationId route)),
             (''description'', opt_str (route_notes route)),
             (''deprecated'', opt_bool (route_deprecated route)),
             (''parameters'', if parameters = [] then JUndefined else JArr parameters),
             (''requestBody'', requestBody),
             (''tags'', route_tags route),
             (''security'',
                case security route of
                  None \<Rightarrow> JUndefined
                | Some reqs \<Rightarrow> securityToJsonSchema reqs),
             (''responses'', responses),
             (''x-order'', opt_num (route_order route))])"
    by (auto simp: route_fragment split: sum.splits)
  from p obtain hs ps qs where
    h: "parameters_in Header (validate_field validate_headers route) opts ef = Inr hs"
       "parameters_in Path (validate_field validate_path route) opts ef = Inr ps"
       "parameters_in Query (validate_field validate_query route) opts ef = Inr qs"
       "parameters = hs @ ps @ qs"
    by (auto simp: route_parameters_def split: sum.splits)
  have "map_of (filter (\<lambda>(k, v). v \<noteq> JUndefined)
            [(''summary'', JStr (route_description route)),
             (''operationId'', JStr (operationId route)),
             (''description'', opt_str (route_notes route)),
             (''deprecated'', opt_bool (route_deprecated route)),
             (''parameters'', if parameters = [] then JUndefined else JArr parameters),
             (''requestBody'', requestBody),
             (''tags'', route_tags route),
             (''security'',
                case security route of
                  None \<Rightarrow> JUndefined
                | Some reqs \<Rightarrow> securityToJsonSchema reqs),
             (''responses'', responses),
             (''x-order'', opt_num (route_order route))]) ''parameters''
        = (if parameters = [] then None else Some (JArr parameters))"
    by (subst map_of_filter_values) simp_all
  with h j show ?thesis by blast
qed

theorem parameters_header_path_query_witness:
  "\<exists>j. routeToJsonSchema
      (Defined \<lparr>operationId = ''getWidget'', route_description = ''Get a widget'',
          route_notes = None, route_deprecated = None, route_method = GET,
          route_path = ''/widgets/{id}'', tags = None,
          validate = Some \<lparr>validate_path = Some (oas_object [(''id'', oas_string)]),
                            validate_query = Some (oas_object [(''q'', oas_string)]),
                            validate_body = None,
                            validate_headers = Some (oas_object [(''h'', oas_string)])\<rparr>,
          successResponse = \<lparr>statusCode = 200, response_description = ''OK'',
                               response_schema = None, response_headers = None,
                               response_examples = None\<rparr>,
          errorResponses = None, produces = None, security = None, route_order = None\<rparr>)
      Flat [] = Inr j
    \<and> (\<exists>kvs. j = JObj kvs \<and> map_of kvs ''parameters'' = Some (JArr
         [JObj [(''description'', JUndefined), (''name'', JStr ''h''),
                (''in'', JStr ''header''), (''explode'', JUndefined),
                (''required'', JUndefined), (''schema'', JObj [(''type'', JStr ''string'')])],
          JObj [(''description'', JUndefined), (''name'', JStr ''id''),
                (''in'', JStr ''path''), (''explode'', JUndefined),
                (''required'', JBool True), (''schema'', JObj [(''type'', JStr ''string'')])],
          JObj [(''description'', JUndefined), (''name'', JStr ''q''),
                (''in'', JStr ''query''), (''explode'', JUndefined),
                (''required'', JUndefined), (''schema'', JObj [(''type'', JStr ''string'')])]]))"
proof -
  let ?r = "\<lparr>operationId = ''getWidget'', route_description = ''Get a widget'',
          route_notes = None, route_deprecated = None, route_method = GET,
          route_path = ''/widgets/{id}'', tags = None,
          validate = Some \<lparr>validate_path = Some (oas_object [(''id'', oas_string)]),
                            validate_query = Some (oas_object [(''q'', oas_string)]),
                            validate_body = None,
                            validate_headers = Some (oas_object [(''h'', oas_string)])\<rparr>,
          successResponse = \<lparr>statusCode = 200, response_description = ''OK'',
                               response_schema = None, response_headers = None,
                               response_examples = None\<rparr>,
          errorResponses = None, produces = None, security = None, route_order = None\<rparr>"
  have hs: "parameters_in Header (validate_field validate_headers ?r) Flat []
      = Inr [JObj [(''description'', JUndefined), (''name'', JStr ''h''),
                (''in'', JStr ''header''), (''explode'', JUndefined),
                (''required'', JUndefined), (''schema'', JObj [(''type'', JStr ''string'')])]]"
    by (simp add: parameters_in_def validate_field_def parameter_def node_eval)
  have ps: "parameters_in Path (validate_field validate_path ?r) Flat []
      = Inr [JObj [(''description'', JUndefined), (''name'', JStr ''id''),
                (''in'', JStr ''path''), (''explode'', JUndefined),
                (''required'', JBool True), (''schema'', JObj [(''type'', JStr ''string'')])]]"
    by (simp add: parameters_in_def validate_field_def parameter_def node_eval)
  have qs: "parameters_in Query (validate_field validate_query ?r) Flat []
      = Inr [JObj [(''description'', JUndefined), (''name'', JStr ''q''),
                (''in'', JStr ''query''), (''explode'', JUndefined),
                (''required'', JUndefined), (''schema'', JObj [(''type'', JStr ''string'')])]]"
    by (simp add: parameters_in_def validate_field_def parameter_def node_eval)
  have rp: "\<exists>parameters. route_parameters ?r Flat [] = Inr parameters"
    unfolding route_parameters_def hs ps qs by simp
  have "\<exists>j. routeToJsonSchema (Defined ?r) Flat [] = Inr j"
    using rp by (auto simp: route_requestBody_def route_responses_def
          validate_field_def and_then_def toResponseSchema_def)
  then obtain j where run: "routeToJsonSchema (Defined ?r) Flat [] = Inr j" ..
  from parameters_header_path_query [OF run] hs ps qs run show ?thesis by auto
qed

section \<open>Labels\<close>

text \<open>
  C9. The node that \<^verbatim>\<open>label\<close> returns has the \<^verbatim>\<open>_required\<close>, \<^verbatim>\<open>_deprecated\<close> and
  \<^verbatim>\<open>_explode\<close> of the node it wraps. So when the wrapped node is required, an object
  that has the labeled node as its field \<open>key\<close> lists \<open>key\<close> under \<^verbatim>\<open>required\<close>.
\<close>

theorem label_preserves_flags:
  assumes "call (M_label L) this st = Some (that, st')"
  shows "required_f (base_of (objects st' ! that)) = required_f (base_of (objects st ! this))
       \<and> deprecated_f (base_of (objects st' ! that)) = deprecated_f (base_of (objects st ! this))
       \<and> explode_f (base_of (objects st' ! that)) = explode_f (base_of (objects st ! this))
       \<and> (required_f (base_of (objects st ! this)) = Some True \<longrightarrow>
            (key, objects st' ! that) \<in> set flds \<longrightarrow>
            toJSonSchema opts ef (ObjectField b flds ap) = Inr j \<longrightarrow>
            (\<exists>kvs names. j = JObj kvs \<and> map_of kvs ''required'' = Some (JArr names)
                          \<and> JStr key \<in> set names))"
proof -
  from assms have new: "objects st' ! that = label L (objects st ! this)"
    by (auto simp: call_def new_FixedSchema_def alloc_def Let_def split: if_splits)
  have flags: "required_f (base_of (objects st' ! that)) = required_f (base_of (objects st ! this))"
    "deprecated_f (base_of (objects st' ! that)) = deprecated_f (base_of (objects st ! this))"
    "explode_f (base_of (objects st' ! that)) = explode_f (base_of (objects st ! this))"
    by (simp_all add: new label_def)
  have parent: "\<exists>kvs names. j = JObj kvs \<and> map_of kvs ''required'' = Some (JArr names)
                          \<and> JStr key \<in> set names"
    if req: "required_f (base_of (objects st ! this)) = Some True"
      and mem: "(key, objects st' ! that) \<in> set flds"
      and run: "toJSonSchema opts ef (ObjectField b flds ap) = Inr j"
  proof -
    let ?rf = "filter (\<lambda>(key, s). required_f (base_of s) = Some True) flds"
    have in_rf: "(key, objects st' ! that) \<in> set ?rf" using mem req flags by simp
    then have ne: "?rf \<noteq> []" by (metis empty_iff empty_set)
    from run ne obtain props where
      j: "j = JObj (filter (\<lambda>(k, v). v \<noteq> JUndefined)
             (object_fields b props ap (JArr (map (\<lambda>(key, s). JStr key) ?rf))))"
      by (auto simp: extensible_fragment_Object Let_def split: sum.splits if_splits)
    have d: "distinct (map fst (object_fields b props ap (JArr (map (\<lambda>(key, s). JStr key) ?rf))))"
      by (simp add: object_fields_def)
    have "map_of (filter (\<lambda>(k, v). v \<noteq> JUndefined)
             (object_fields b props ap (JArr (map (\<lambda>(key, s). JStr key) ?rf)))) ''required''
          = Some (JArr (map (\<lambda>(key, s). JStr key) ?rf))"
      by (simp add: map_of_filter_values [OF d] object_fields_def)
    moreover have "JStr key \<in> set (map (\<lambda>(key, s). JStr key) ?rf)"
      using in_rf by force
    ultimately show ?thesis using j by blast
  qed
  from flags parent show ?thesis by blast
qed

theorem label_preserves_flags_witness:
  "call (M_label ''User'') 0 (snd (alloc (required oas_string) empty_store))
     = Some (1, \<lparr>objects = [required oas_string, label ''User'' (required oas_string)],
                  registeredFixedSchemas = [''User''], externalFiles = []\<rparr>)
   \<and> required_f (base_of (objects (snd (alloc (required oas_string) empty_store)) ! 0)) = Some True
   \<and> required_f (base_of (label ''User'' (required oas_string))) = Some True
   \<and> toJSonSchema Referenced []
        (ObjectField new_base [(''owner'', label ''User'' (required oas_string))] None)
       = Inr (JObj [(''type'', JStr ''object''),
                    (''properties'',
                       JObj [(''owner'', JObj [(''$ref'', JStr ''#/components/schemas/User'')])]),
                    (''required'', JArr [JStr ''owner''])])"
proof -
  let ?st = "snd (alloc (required oas_string) empty_store)"
  let ?st' = "\<lparr>objects = [required oas_string, label ''User'' (required oas_string)],
                  registeredFixedSchemas = [''User''], externalFiles = []\<rparr>"
  have run: "call (M_label ''User'') 0 ?st = Some (1, ?st')"
    by (simp add: store_eval oas_string_def required_def toSchemaName_def is_name_char_def)
  have req: "required_f (base_of (objects ?st ! 0)) = Some True"
    by (simp add: alloc_def empty_store_def oas_string_def required_def)
  have mem: "(''owner'', objects ?st' ! 1) \<in> set [(''owner'', label ''User'' (required oas_string))]"
    by simp
  have ser: "toJSonSchema Referenced []
        (ObjectField new_base [(''owner'', label ''User'' (required oas_string))] None)
       = Inr (JObj [(''type'', JStr ''object''),
                    (''properties'',
                       JObj [(''owner'', JObj [(''$ref'', JStr ''#/components/schemas/User'')])]),
                    (''required'', JArr [JStr ''owner''])])"
    by (simp add: label_def toSchemaName_def is_name_char_def node_eval)
  from label_preserves_flags [OF run, of "''owner''" _ Referenced "[]" new_base None]
    run req mem ser
  show ?thesis by simp
qed

section \<open>Duplicate labels\<close>

lemma map_of_replace_key:
  "has_key k obj \<Longrightarrow> map_of (replace_key k v obj) = (map_of obj)(k \<mapsto> v)"
  by (induction obj) (auto simp: has_key_def fun_eq_iff)

lemma map_of_insert_index_at:
  "\<not> has_key k obj \<Longrightarrow> map_of (insert_index k v obj) x = ((map_of obj)(k \<mapsto> v)) x"
  by (induction obj) (auto simp: has_key_def split: if_splits)

lemma map_of_insert_index:
  "\<not> has_key k obj \<Longrightarrow> map_of (insert_index k v obj) = (map_of obj)(k \<mapsto> v)"
  using map_of_insert_index_at by fastforce

lemma map_of_obj_set: "map_of (obj_set k v obj) = (map_of obj)(k \<mapsto> v)"
proof (cases "has_key k obj")
  case True
  then show ?thesis by (simp add: obj_set_def map_of_replace_key)
next
  case False
  then have "map_of obj k = None" by (simp add: has_key_def)
  then have "map_of (obj @ [(k, v)]) = (map_of obj)(k \<mapsto> v)"
    by (auto simp: fun_eq_iff map_add_def split: option.splits)
  with False show ?thesis by (simp add: obj_set_def map_of_insert_index)
qed

text \<open>What \<^verbatim>\<open>schemaCount\<close> holds for a label: its number of registrations, unless the
  label names a member of \<^verbatim>\<open>Object.prototype\<close>.\<close>

lemma fold_count_step:
  "map_of (fold count_step reg acc) s =
     (if count_list reg s = 0 then map_of acc s
      else Some (case js_get acc s of
                   Own (Tally n) \<Rightarrow> Tally (n + count_list reg s)
                 | Own NotANumber \<Rightarrow> NotANumber
                 | Inherited \<Rightarrow> NotANumber
                 | Absent \<Rightarrow> Tally (count_list reg s)))"
proof (induction reg arbitrary: acc)
  case Nil
  then show ?case by simp
next
  case (Cons r reg)
  show ?case
  proof (cases "r = s")
    case True
    show ?thesis
      unfolding fold_Cons comp_apply Cons.IH
      by (auto simp: True count_step_def map_of_obj_set js_get_def
               split: option.splits tally.splits property.splits)
  next
    case False
    have "map_of (count_step r acc) s = map_of acc s"
      using False by (simp add: count_step_def map_of_obj_set)
    then have g: "js_get (count_step r acc) s = js_get acc s" by (simp add: js_get_def)
    have c: "count_list (r # reg) s = count_list reg s" using False by simp
    show ?thesis
      unfolding fold_Cons comp_apply Cons.IH c g
      using \<open>map_of (count_step r acc) s = map_of acc s\<close> by simp
  qed
qed

lemma duplicate_labels_detected:
  assumes "s \<notin> set Object_prototype_keys" and "2 \<le> count_list (registeredFixedSchemas st) s"
  shows "s \<in> set (getDuplicateFixedSchemas st)"
proof -
  let ?n = "count_list (registeredFixedSchemas st) s"
  have "map_of (schemaCount (registeredFixedSchemas st)) s = Some (Tally ?n)"
    using assms by (simp add: schemaCount_def fold_count_step js_get_def)
  then have "(s, Tally ?n) \<in> set (schemaCount (registeredFixedSchemas st))"
    by (rule map_of_SomeD)
  then have "(s, Tally ?n) \<in> set (filter (\<lambda>(s, c). case c of Tally n \<Rightarrow> n > 1 | NotANumber \<Rightarrow> False)
                (schemaCount (registeredFixedSchemas st)))"
    using assms(2) by simp
  then show ?thesis unfolding getDuplicateFixedSchemas_def by force
qed

lemma duplicate_labels_abort_referenced:
  assumes "s \<notin> set Object_prototype_keys" and "2 \<le> count_list (registeredFixedSchemas (heap p)) s"
  shows "makeSchema E tempDir params Referenced p =
           (Inl (Error (''Found duplicate fixed schemas: ''
                        @ join_comma (getDuplicateFixedSchemas (heap p)))), p)"
proof -
  have "getDuplicateFixedSchemas (heap p) \<noteq> []"
    using duplicate_labels_detected [OF assms] by auto
  then show ?thesis by (simp add: makeSchema_def)
qed

lemma flat_ignores_registered_labels:
  "fst (makeSchema E tempDir params Flat (p\<lparr>heap := (heap p)\<lparr>registeredFixedSchemas := reg\<rparr>\<rparr>))
   = fst (makeSchema E tempDir params Flat p)"
  by (simp add: makeSchema_def Let_def split: prod.splits option.splits sum.splits Output.splits)

text \<open>
  C4 at a failing input. Two distinct nodes, \<^verbatim>\<open>string().label("constructor")\<close> and
  \<^verbatim>\<open>number().label("constructor")\<close>, register the same label twice. The first
  \<^verbatim>\<open>acc[s]\<close> of \<^verbatim>\<open>getDuplicateFixedSchemas\<close> reads \<^verbatim>\<open>Object.prototype.constructor\<close>, the
  count of the label is not a number, and no duplicate is reported: a build in
  referenced mode of a route that uses both nodes throws nothing. (For every label
  that \<^verbatim>\<open>Object.prototype\<close> has no member for, \<open>duplicate_labels_abort_referenced\<close>
  shows the error that the claim expects, and \<open>flat_ignores_registered_labels\<close>
  that flat mode does not look at the labels.)
\<close>

theorem duplicate_constructor_labels_pass:
  "(case call (M_label ''constructor'') 0 (snd (alloc oas_string empty_store)) of
      None \<Rightarrow> False
    | Some (first, st2) \<Rightarrow>
       (case call (M_label ''constructor'') 2 (snd (alloc oas_number st2)) of
          None \<Rightarrow> False
        | Some (second, st4) \<Rightarrow>
            first \<noteq> second
            \<and> objects st4 ! first = label ''constructor'' oas_string
            \<and> objects st4 ! second = label ''constructor'' oas_number
            \<and> registeredFixedSchemas st4 = [''constructor'', ''constructor'']
            \<and> getDuplicateFixedSchemas st4 = []
            \<and> makeSchema
                 \<lparr>path_join = (\<lambda>a b. a @ ''/'' @ b), dereference_file = (\<lambda>f. None),
                    normalize_document = (\<lambda>opts doc. Inr ''{}'')\<rparr>
                 ''/tmp/oas-dsl''
                 \<lparr>openapiVersion = ''3.0.0'', info = JObj [], servers = JArr [],
                    document_tags = [],
                    routes = [Defined
                      \<lparr>operationId = ''create'', route_description = ''Create'',
                         route_notes = None, route_deprecated = None, route_method = POST,
                         route_path = ''/things'', tags = None,
                         validate = Some \<lparr>validate_path = None, validate_query = None,
                            validate_body = Some (oas_object
                              [(''a'', objects st4 ! first), (''b'', objects st4 ! second)]),
                            validate_headers = None\<rparr>,
                         successResponse = \<lparr>statusCode = 204, response_description = ''Done'',
                            response_schema = None, response_headers = None,
                            response_examples = None\<rparr>,
                         errorResponses = None, produces = None, security = None,
                         route_order = None\<rparr>],
                    document_security = None, securitySchemes = None,
                    transformations = None, output_f = NoOutput\<rparr>
                 Referenced
                 \<lparr>heap = st4, console = [], written = []\<rparr>
               = (Inr (), \<lparr>heap = st4, console = [], written = []\<rparr>)))"
  apply (simp add: store_eval toSchemaName_def is_name_char_def)
  apply (simp add: getDuplicateFixedSchemas_def schemaCount_def count_step_def js_get_def
        Object_prototype_keys_def obj_eval)
  apply (simp add: makeSchema_def getDuplicateFixedSchemas_def schemaCount_def count_step_def
        js_get_def Object_prototype_keys_def obj_eval dereferenceExternalSchemas_def
        paths_def sortedRoutes_def js_sort_def insert_operation_def
        route_parameters_def parameters_in_def validate_field_def route_requestBody_def
        and_then_def route_responses_def toResponseSchema_def label_def
        toSchemaName_def is_name_char_def collect_optional_def node_eval)
  done

section \<open>External references\<close>

lemma has_key_obj_set: "has_key k' (obj_set k v obj) \<longleftrightarrow> k' = k \<or> has_key k' obj"
  by (simp add: has_key_def map_of_obj_set)

lemma has_key_js_assign: "has_key k' obj \<Longrightarrow> has_key k' (js_assign k v obj)"
  by (simp add: js_assign_def has_key_obj_set)

lemma has_key_enter_route_files: "has_key k ef \<Longrightarrow> has_key k (enter_route_files rs ef)"
  by (induction rs ef rule: enter_route_files.induct) (simp_all add: has_key_js_assign)

lemma resolve_files_table:
  assumes "resolve_files E tempDir iks ef = (None, ef')"
    and "\<forall>ik \<in> set iks. has_key (snd ik) ef"
    and "distinct (map snd iks)"
    and "(i, k) \<in> set iks"
  shows "map_of ef' k = Some (targetFilename E tempDir i k)"
  using assms
proof (induction iks arbitrary: ef)
  case Nil
  then show ?case by simp
next
  case (Cons ik iks)
  obtain i0 k0 where ik: "ik = (i0, k0)" by (cases ik)
  let ?ef1 = "js_assign k0 (targetFilename E tempDir i0 k0) ef"
  from Cons.prems(1) have ok: "dereference_file E k0 = None"
    and rest: "resolve_files E tempDir iks ?ef1 = (None, ef')"
    by (auto simp: ik split: option.splits)
  have k0: "has_key k0 ef" using Cons.prems(2) by (simp add: ik)
  have ef1: "?ef1 = obj_set k0 (targetFilename E tempDir i0 k0) ef"
    using k0 by (simp add: js_assign_def)
  have keys: "\<forall>ik \<in> set iks. has_key (snd ik) ?ef1"
    using Cons.prems(2) by (simp add: has_key_js_assign)
  have d: "distinct (map snd iks)" and fresh: "k0 \<notin> snd ` set iks"
    using Cons.prems(3) by (simp_all add: ik)
  show ?case
  proof (cases "(i, k) \<in> set iks")
    case True
    from Cons.IH [OF rest keys d True] show ?thesis .
  next
    case False
    then have same: "i = i0" "k = k0" using Cons.prems(4) by (simp_all add: ik)
    have untouched: "map_of ef'' k0 = map_of ef0 k0"
      if "resolve_files E tempDir iks ef0 = (None, ef'')" for ef0 ef''
      using that fresh
    proof (induction iks arbitrary: ef0)
      case Nil
      then show ?case by simp
    next
      case (Cons jl iks)
      obtain j l where jl: "jl = (j, l)" by (cases jl)
      from Cons.prems have l: "l \<noteq> k0" by (auto simp: jl)
      from Cons.prems(1) have
        r: "resolve_files E tempDir iks (js_assign l (targetFilename E tempDir j l) ef0) = (None, ef'')"
        by (auto simp: jl split: option.splits)
      have "map_of (js_assign l (targetFilename E tempDir j l) ef0) k0 = map_of ef0 k0"
        using l by (simp add: js_assign_def map_of_obj_set)
      with Cons.IH [OF r] Cons.prems(2) show ?case by simp
    qed
    from untouched [OF rest] show ?thesis by (simp add: same ef1 map_of_obj_set)
  qed
qed

lemma enumerate_keys:
  "distinct ks \<Longrightarrow> distinct (map snd (enumerate n ks))"
  by (simp add: enumerate_eq_zip)

lemma distinct_keys_obj_set:
  "distinct (map fst obj) \<Longrightarrow> distinct (map fst (obj_set k v obj))"
proof -
  assume d: "distinct (map fst obj)"
  have ins: "\<not> has_key k obj \<Longrightarrow> distinct (map fst (insert_index k v obj))"
    using d
  proof (induction obj)
    case Nil
    then show ?case by simp
  next
    case (Cons kv obj)
    obtain k' v' where kv: "kv = (k', v')" by (cases kv)
    from Cons.prems have nk: "\<not> has_key k obj" and ne: "k \<noteq> k'"
      by (auto simp: has_key_def kv split: if_splits)
    from Cons.prems have d': "distinct (map fst obj)" and f: "k' \<notin> fst ` set obj" by (auto simp: kv)
    have "fst ` set (insert_index k v obj) = insert k (fst ` set obj)"
      by (simp add: set_insert_index)
    with Cons.IH [OF nk d'] Cons.prems ne f nk show ?case
      by (auto simp: kv has_key_iff)
  qed
  show ?thesis using d ins
    by (auto simp: obj_set_def map_fst_replace_key has_key_iff)
qed

lemma distinct_keys_js_assign:
  "distinct (map fst obj) \<Longrightarrow> distinct (map fst (js_assign k v obj))"
  by (simp add: js_assign_def distinct_keys_obj_set)

lemma distinct_keys_enter_route_files:
  "distinct (map fst ef) \<Longrightarrow> distinct (map fst (enter_route_files rs ef))"
  by (induction rs ef rule: enter_route_files.induct) (simp_all add: distinct_keys_js_assign)

text \<open>
  A file that is a key of the table is bound, after the resolver has run to its end,
  to the name of its dereferenced copy, and a node for that file is serialized as a
  pointer into the copy. (\<^verbatim>\<open>path.join\<close> never returns the empty string, which is
  what the last assumption says.)
\<close>

lemma resolved_reference:
  assumes "dereferenceExternalSchemas E rs tempDir ef = (None, ef')"
    and "has_key f ef" and "distinct (map fst ef)"
    and "\<forall>a b. path_join E a b \<noteq> []"
  shows "\<exists>i. toJSonSchema opts ef' (ReferenceSchema b f p) =
              Inr (JObj [(''$ref'', JStr (targetFilename E tempDir i f @ ''#'' @ p))])"
proof -
  let ?ef1 = "enter_route_files rs ef"
  let ?iks = "enumerate 0 (map fst ?ef1)"
  from assms(1) have r: "resolve_files E tempDir ?iks ?ef1 = (None, ef')"
    by (simp add: dereferenceExternalSchemas_def Let_def)
  have keys: "\<forall>ik \<in> set ?iks. has_key (snd ik) ?ef1"
    by (auto simp: has_key_iff in_set_enumerate_eq)
  have d: "distinct (map snd ?iks)"
    using distinct_keys_enter_route_files [OF assms(3)] by (rule enumerate_keys)
  have "has_key f ?ef1" using assms(2) by (rule has_key_enter_route_files)
  then have "f \<in> set (map fst ?ef1)" by (simp add: has_key_iff)
  then obtain i where i: "i < length (map fst ?ef1)" "map fst ?ef1 ! i = f"
    by (auto simp: in_set_conv_nth)
  then have "(i, f) \<in> set ?iks" by (auto simp: in_set_enumerate_eq)
  from resolve_files_table [OF r keys d this]
  have "map_of ef' f = Some (targetFilename E tempDir i f)" .
  moreover have "targetFilename E tempDir i f \<noteq> []"
    using assms(4) by (simp add: targetFilename_def)
  ultimately show ?thesis by (auto simp: js_get_def)
qed

text \<open>
  A node built for a file other than \<^verbatim>\<open>__proto__\<close> throws when it is serialized
  before the resolver has run, and the error names the file.
\<close>

lemma unresolved_reference:
  assumes "new_ReferenceSchema f p st = (that, st')" and "f \<noteq> ''__proto__''"
  shows "serialize opts st' that = Inl (Error (''External file not found: '' @ f))
         \<and> has_key f (externalFiles st')"
  using assms
  by (auto simp: new_ReferenceSchema_def alloc_def serialize_def js_assign_def
        js_get_def map_of_obj_set has_key_obj_set Let_def)

text \<open>
  C5 at a failing input. The constructor's assignment
  \<^verbatim>\<open>externalFiles["__proto__"] = ""\<close> creates no property, and reading
  \<^verbatim>\<open>externalFiles["__proto__"]\<close> gives \<^verbatim>\<open>Object.prototype\<close>, which is truthy: the node
  for the file \<^verbatim>\<open>__proto__\<close> is serialized without an error before any resolution,
  and the resolver, which goes through the keys of the table, never resolves it.
  (For every other file, \<open>unresolved_reference\<close> and \<open>resolved_reference\<close> show
  what the claim says.)
\<close>

theorem proto_reference_does_not_throw:
  "(case new_ReferenceSchema ''__proto__'' ''/definitions/Widget'' empty_store of
      (that, st) \<Rightarrow>
        objects st ! that = ReferenceSchema new_base ''__proto__'' ''/definitions/Widget''
        \<and> externalFiles st = []
        \<and> serialize opts st that
            = Inr (JObj [(''$ref'', JStr ''[object Object]#/definitions/Widget'')])
        \<and> dereferenceExternalSchemas E [] tempDir (externalFiles st) = (None, externalFiles st))"
  by (simp add: new_ReferenceSchema_def alloc_def empty_store_def js_assign_def has_key_def
        serialize_def js_get_def Object_prototype_keys_def inherited_text_def
        dereferenceExternalSchemas_def)

section \<open>The order of the routes and of the path items\<close>



lemma fold_add_key_distinct: "distinct ks \<Longrightarrow> distinct (fold add_key xs ks)"
  by (induction xs arbitrary: ks) (auto simp: add_key_def)

lemma fold_add_key_set: "set (fold add_key xs ks) = set ks \<union> set xs"
  by (induction xs arbitrary: ks) (auto simp: add_key_def)













lemmas paths_eval = paths_def sortedRoutes_def js_sort_def compare_routes_def
  insert_operation_def js_get_def Object_prototype_keys_def ignoreUndefined_def opt_bool_def
  obj_eval


text \<open>
  Two more ways in which the keys of \<^verbatim>\<open>paths\<close> leave the order of the routes: a path
  that is an array index is listed before every other key, whatever its order, and a
  path that names a member of \<^verbatim>\<open>Object.prototype\<close> gets no path item at all.
\<close>

lemma array_index_path_is_listed_first:
  "paths
     [ByReference \<lparr>ref_method = GET, ref_route_path = ''/first'', ref_order = Some 0,
                    ref_file = ''a.json'', ref_path = ''/a'', ref_deprecated = None\<rparr>,
      ByReference \<lparr>ref_method = GET, ref_route_path = ''7'', ref_order = Some 1,
                    ref_file = ''b.json'', ref_path = ''/b'', ref_deprecated = None\<rparr>]
     Flat []
   = Inr [(''7'', [(''get'', JObj [(''$ref'', JStr ''b.json#/b'')])]),
          (''/first'', [(''get'', JObj [(''$ref'', JStr ''a.json#/a'')])])]"
  by (simp add: paths_eval obj_set_def has_key_def is_array_index_def digits_value_def)

lemma prototype_path_has_no_item:
  "paths
     [ByReference \<lparr>ref_method = GET, ref_route_path = ''constructor'', ref_order = Some 0,
                    ref_file = ''a.json'', ref_path = ''/a'', ref_deprecated = None\<rparr>]
     Flat []
   = Inr []"
  by (simp add: paths_eval)



end
